theory Spec2Isabelle
  imports Main "HOL-Library.AList"
begin

section \<open>Go strings\<close>

text \<open>
  A Go string is a sequence of bytes, so it is modelled as a \<open>string\<close> (a list of 8-bit
  characters). The functions of package \<open>strings\<close> that the source calls are written out
  below on bytes.
\<close>

text \<open>\<open>strings.Split(s, sep)\<close> for a one-byte separator: the pieces between the
  separators, so an input without separator gives one piece (also the empty input).\<close>

fun Split :: "string \<Rightarrow> char \<Rightarrow> string list" where
  "Split [] sep = [[]]"
| "Split (c # cs) sep =
     (if c = sep then [] # Split cs sep
      else (case Split cs sep of [] \<Rightarrow> [[c]] | p # ps \<Rightarrow> (c # p) # ps))"

definition HasPrefix :: "string \<Rightarrow> string \<Rightarrow> bool" where
  "HasPrefix s p = (take (length p) s = p)"

definition TrimPrefix :: "string \<Rightarrow> string \<Rightarrow> string" where
  "TrimPrefix s p = (if HasPrefix s p then drop (length p) s else s)"

text \<open>
  \<open>strings.TrimSpace\<close> removes the leading and the trailing runes for which
  \<open>unicode.IsSpace\<close> holds. These are the code points of \<open>space_runes\<close>, given here by
  their UTF-8 encodings: tab, line feed, vertical tab, form feed, carriage return, space,
  U+0085, U+00A0, U+1680, U+2000 to U+200A, U+2028, U+2029, U+202F, U+205F and U+3000.
  A byte sequence that is not one of these encodings decodes to a rune that is no space.
\<close>

definition space_runes :: "string list" where
  "space_runes =
     [[CHR 0x09], [CHR 0x0A], [CHR 0x0B], [CHR 0x0C], [CHR 0x0D], [CHR 0x20],
      [CHR 0xC2, CHR 0x85], [CHR 0xC2, CHR 0xA0],
      [CHR 0xE1, CHR 0x9A, CHR 0x80],
      [CHR 0xE2, CHR 0x80, CHR 0x80], [CHR 0xE2, CHR 0x80, CHR 0x81],
      [CHR 0xE2, CHR 0x80, CHR 0x82], [CHR 0xE2, CHR 0x80, CHR 0x83],
      [CHR 0xE2, CHR 0x80, CHR 0x84], [CHR 0xE2, CHR 0x80, CHR 0x85],
      [CHR 0xE2, CHR 0x80, CHR 0x86], [CHR 0xE2, CHR 0x80, CHR 0x87],
      [CHR 0xE2, CHR 0x80, CHR 0x88], [CHR 0xE2, CHR 0x80, CHR 0x89],
      [CHR 0xE2, CHR 0x80, CHR 0x8A],
      [CHR 0xE2, CHR 0x80, CHR 0xA8], [CHR 0xE2, CHR 0x80, CHR 0xA9],
      [CHR 0xE2, CHR 0x80, CHR 0xAF],
      [CHR 0xE2, CHR 0x81, CHR 0x9F],
      [CHR 0xE3, CHR 0x80, CHR 0x80]]"

definition leading_rune :: "string list \<Rightarrow> string \<Rightarrow> string option" where
  "leading_rune runes s = find (\<lambda>p. p \<noteq> [] \<and> take (length p) s = p) runes"

function trim_leading :: "string list \<Rightarrow> string \<Rightarrow> string" where
  "trim_leading runes s =
     (case leading_rune runes s of
        None \<Rightarrow> s
      | Some p \<Rightarrow> trim_leading runes (drop (length p) s))"
  by pat_completeness auto

lemma leading_rune_Some:
  "leading_rune runes s = Some p \<Longrightarrow> p \<noteq> [] \<and> take (length p) s = p"
  unfolding leading_rune_def by (auto simp: find_Some_iff)

termination trim_leading
proof (relation "measure (\<lambda>(runes, s). length s)")
  show "wf (measure (\<lambda>(runes, s). length s))" by simp
next
  fix runes :: "string list" and s p :: string
  assume "leading_rune runes s = Some p"
  then have p: "p \<noteq> []" "take (length p) s = p"
    using leading_rune_Some by blast+
  then have "s \<noteq> []" by auto
  with p show "((runes, drop (length p) s), (runes, s)) \<in> measure (\<lambda>(runes, s). length s)"
    by (cases p) auto
qed

definition TrimSpace :: "string \<Rightarrow> string" where
  "TrimSpace s =
     rev (trim_leading (map rev space_runes) (rev (trim_leading space_runes s)))"

text \<open>
  \<open>strings.ToLower\<close>: on a string of ASCII bytes it maps \<open>A\<close> to \<open>Z\<close> to \<open>a\<close> to
  \<open>z\<close>. On a string with a byte of 0x80 or more it applies the case tables of package
  \<open>unicode\<close>; they are the parameter \<open>ulower\<close>.
\<close>

definition ascii_lower :: "char \<Rightarrow> char" where
  "ascii_lower c =
     (if (65::nat) \<le> of_char c \<and> of_char c \<le> (90::nat)
      then char_of (of_char c + (32::nat)) else c)"

definition ToLower :: "(string \<Rightarrow> string) \<Rightarrow> string \<Rightarrow> string" where
  "ToLower ulower s =
     (if list_all (\<lambda>c. (of_char c :: nat) < 128) s then map ascii_lower s else ulower s)"

section \<open>The sql struct tag (db/row_struct_mapper.go)\<close>

record SQLStructTag =
  ColumnName :: string
  PersistZeroValue :: bool

text \<open>
  One turn of the loop of \<open>BuildFromString\<close>. The calls of \<open>builder.log\<close> only write to
  the logger and are left out.
\<close>

definition build_item :: "(string \<Rightarrow> string) \<Rightarrow> SQLStructTag \<Rightarrow> string \<Rightarrow> SQLStructTag" where
  "build_item ulower tag item =
     (let data = TrimSpace item;
          tag1 = (if HasPrefix data ''column:''
                  then tag\<lparr>ColumnName := TrimSpace (TrimPrefix data ''column:'')\<rparr>
                  else tag)
      in if TrimSpace (ToLower ulower data) = ''persistzerovalue''
         then tag1\<lparr>PersistZeroValue := True\<rparr>
         else tag1)"

definition BuildFromString :: "(string \<Rightarrow> string) \<Rightarrow> string \<Rightarrow> SQLStructTag" where
  "BuildFromString ulower data =
     foldl (build_item ulower) \<lparr>ColumnName = [], PersistZeroValue = False\<rparr>
       (Split data CHR '','')"


text \<open>\<open>strings.Join\<close>, used to say what \<open>Split\<close> computes.\<close>

fun Join :: "string list \<Rightarrow> char \<Rightarrow> string" where
  "Join [] sep = []"
| "Join [p] sep = p"
| "Join (p # q # ps) sep = p @ sep # Join (q # ps) sep"

section \<open>Reflection on the destination (db/row_struct_mapper.go)\<close>

text \<open>
  What \<open>reflect\<close> shows of a value passed as \<open>interface{}\<close>: a struct with its fields in
  declaration order, a pointer (\<open>None\<close> is the nil pointer), the nil interface, or a value
  of any other kind. A field has its declared name (the name of the type for an embedded
  field), its struct tag as the list of its \<open>key:"value"\<close> pairs, and \<open>Settable\<close>, the
  result of \<open>CanSet\<close> on the field of an addressable struct (false for an unexported
  field). A field that embeds a struct type \<open>T\<close>, as \<open>T\<close> or as \<open>*T\<close>, has in \<open>Embeds\<close> the
  fields of \<open>T\<close>, which the enclosing struct promotes, and whether the field is a nil
  pointer; a field of \<open>T\<close> that embeds a struct has the same again. (A type that embeds
  itself through a pointer is unrolled as deep as a lookup goes.) The tags of the fields
  below the top are not looked at by the code and are left out.
\<close>

datatype promoted = Promoted (pname: string) (psettable: bool) (pembedded: "embedded option")
and embedded = EmbeddedStruct (nil_pointer: bool) (promoted_fields: "promoted list")

record field =
  Name :: string
  Tag :: "(string \<times> string) list"
  Settable :: bool
  Embeds :: "embedded option"

datatype go_value = GoStruct "field list" | GoPtr "go_value option" | GoNil | GoOther

text \<open>\<open>reflect.Indirect\<close>: the value a pointer points to (the zero Value for a nil
  pointer, of kind Invalid as for the nil interface), any other value unchanged.\<close>

fun Indirect :: "go_value \<Rightarrow> go_value" where
  "Indirect (GoPtr None) = GoNil"
| "Indirect (GoPtr (Some v)) = v"
| "Indirect v = v"

text \<open>\<open>StructTag.Get\<close>: the value of the first pair with the key, or the empty string.\<close>

definition TagGet :: "(string \<times> string) list \<Rightarrow> string \<Rightarrow> string" where
  "TagGet tag key = (case map_of tag key of None \<Rightarrow> [] | Some v \<Rightarrow> v)"

text \<open>The errors of the file, one constructor for each \<open>fmt.Errorf\<close>, one for an
  error of the scanner and one for a panic of package \<open>reflect\<close>.\<close>

datatype 'e map_error =
    StructExpected go_value
  | PointerExpected go_value
  | NoFieldFound string
  | UnexportedField string
  | ScanFailed 'e
  | ReflectPanic

subsection \<open>CreateTagMapperFunc\<close>

fun tag_map_loop ::
  "(string \<Rightarrow> string) \<Rightarrow> string \<Rightarrow> field list \<Rightarrow> (string \<rightharpoonup> string) \<Rightarrow> (string \<rightharpoonup> string)" where
  "tag_map_loop ulower tagname [] m = m"
| "tag_map_loop ulower tagname (f # fs) m =
     (let name = Name f;
          stringTags = TagGet (Tag f) tagname;
          tags = BuildFromString ulower stringTags
      in tag_map_loop ulower tagname fs
           (if ColumnName tags \<noteq> [] then m(ColumnName tags \<mapsto> name) else m(name \<mapsto> name)))"

definition default_tagname :: "string list \<Rightarrow> string" where
  "default_tagname tagname = (case tagname of [] \<Rightarrow> ''sql'' | t # _ \<Rightarrow> t)"

definition CreateTagMapperFunc ::
  "(string \<Rightarrow> string) \<Rightarrow> go_value \<Rightarrow> string list \<Rightarrow> 'e map_error + (string \<Rightarrow> string)" where
  "CreateTagMapperFunc ulower Struct tagname =
     (case Indirect Struct of
        GoStruct fs \<Rightarrow>
          (let m = tag_map_loop ulower (default_tagname tagname) fs Map.empty
           in Inr (\<lambda>s. case m s of Some r \<Rightarrow> r | None \<Rightarrow> s))
      | _ \<Rightarrow> Inl (StructExpected Struct))"

text \<open>The key under which the loop enters a field in the map: the column of its tag
  when that is not empty, its declared name otherwise.\<close>

definition tag_key :: "(string \<Rightarrow> string) \<Rightarrow> string \<Rightarrow> field \<Rightarrow> string" where
  "tag_key ulower tagname f =
     (let c = ColumnName (BuildFromString ulower (TagGet (Tag f) tagname))
      in if c \<noteq> [] then c else Name f)"

subsection \<open>MapRowToStruct\<close>

text \<open>A destination handed to \<open>Scan\<close>: a fresh \<open>*[]byte\<close> that nobody reads, or the
  address of the field of that name.\<close>

datatype dest = Discard | FieldAddr "nat list"

definition noop :: "string \<Rightarrow> string" where
  "noop s = s"

text \<open>
  \<open>reflect.Value.FieldByName\<close>, which the loop calls. Package \<open>reflect\<close> looks the name up
  in the struct type as a selector is resolved: among the fields of the struct and the
  fields promoted from its embedded structs, the field of that name at the shallowest
  depth of embedding, provided it is the only one of that name at that depth (a name that
  occurs twice at the shallowest depth is not found; on the struct itself the first field
  of the name is taken). A field found is the sequence of field indices that leads to it.
  \<open>named_fields\<close> lists the fields of a name by depth, each with its indices, with
  whether the way to it goes through an embedded nil pointer and with its \<open>CanSet\<close>.
\<close>

record candidate =
  index :: "nat list"
  through_nil :: bool
  can_set :: bool

fun merge_levels :: "'a list list \<Rightarrow> 'a list list \<Rightarrow> 'a list list" where
  "merge_levels [] ys = ys"
| "merge_levels xs [] = xs"
| "merge_levels (x # xs) (y # ys) = (x @ y) # merge_levels xs ys"

definition below :: "nat \<Rightarrow> bool \<Rightarrow> candidate \<Rightarrow> candidate" where
  "below i nil c = c\<lparr>index := i # index c, through_nil := (nil \<or> through_nil c)\<rparr>"

fun named_fields :: "string \<Rightarrow> nat \<Rightarrow> promoted list \<Rightarrow> candidate list list" where
  "named_fields name i [] = []"
| "named_fields name i (Promoted n st emb # fs) =
     merge_levels
       ((if n = name then [\<lparr>index = [i], through_nil = False, can_set = st\<rparr>] else []) #
        (case emb of
           None \<Rightarrow> []
         | Some (EmbeddedStruct nil efs) \<Rightarrow> map (map (below i nil)) (named_fields name 0 efs)))
       (named_fields name (Suc i) fs)"

text \<open>\<open>reflect.Type.FieldByName\<close> on the struct type: the field and whether there is
  one.\<close>

definition TypeFieldByName :: "field list \<Rightarrow> string \<Rightarrow> candidate option" where
  "TypeFieldByName fs name =
     (if name = [] then None
      else case dropWhile (\<lambda>level. level = [])
                  (named_fields name 0 (map (\<lambda>f. Promoted (Name f) (Settable f) (Embeds f)) fs)) of
        [] \<Rightarrow> None
      | level # _ \<Rightarrow>
          if length level = 1 \<or> length (index (hd level)) = 1 then Some (hd level) else None)"

text \<open>The panic of \<open>reflect.Value.FieldByIndex\<close>, "indirection through nil pointer to
  embedded struct".\<close>

datatype reflect_panic = NilEmbeddedPointer

text \<open>\<open>reflect.Value.FieldByName\<close> on a struct value: the zero Value (\<open>None\<close>) when the
  type has no such field, else the field reached by its indices, with a panic when an
  embedded pointer on the way is nil.\<close>

definition FieldByName :: "field list \<Rightarrow> string \<Rightarrow> reflect_panic + candidate option" where
  "FieldByName fs name =
     (case TypeFieldByName fs name of
        None \<Rightarrow> Inr None
      | Some f \<Rightarrow> if through_nil f then Inl NilEmbeddedPointer else Inr (Some f))"

fun scan_dests ::
  "bool \<Rightarrow> (string \<Rightarrow> string) \<Rightarrow> field list \<Rightarrow> string list \<Rightarrow> dest list \<Rightarrow> 'e map_error + dest list" where
  "scan_dests ignoreMissingFields transform fs [] arrayOfResults = Inr arrayOfResults"
| "scan_dests ignoreMissingFields transform fs (c # columns) arrayOfResults =
     (let column = transform c in
      case FieldByName fs column of
        Inl p \<Rightarrow> Inl ReflectPanic
      | Inr None \<Rightarrow>
          if ignoreMissingFields
          then scan_dests ignoreMissingFields transform fs columns (arrayOfResults @ [Discard])
          else Inl (NoFieldFound column)
      | Inr (Some f) \<Rightarrow>
          if \<not> can_set f then Inl (UnexportedField column)
          else scan_dests ignoreMissingFields transform fs columns
                 (arrayOfResults @ [FieldAddr (index f)]))"

text \<open>
  The scanner is the function \<open>Scan\<close> from the destinations to its error, if any. The
  result is the error returned and the list of the calls made to \<open>Scan\<close>, each with its
  destinations; a panic is the error \<open>ReflectPanic\<close>. \<open>FieldByName\<close> panics on a value that
  is no struct (what a nil pointer or a pointer to anything else gives), which happens at
  the first column.
\<close>

definition MapRowToStruct ::
  "string list \<Rightarrow> (dest list \<Rightarrow> 'e option) \<Rightarrow> go_value \<Rightarrow> bool \<Rightarrow> (string \<Rightarrow> string) list
     \<Rightarrow> 'e map_error option \<times> dest list list" where
  "MapRowToStruct columns Scan Struct ignoreMissingFields transforms =
     (let transform = (case transforms of [] \<Rightarrow> noop | t # _ \<Rightarrow> t) in
      case Struct of
        GoPtr p \<Rightarrow>
          (case Indirect Struct of
             GoStruct fs \<Rightarrow>
               (case scan_dests ignoreMissingFields transform fs columns [] of
                  Inl e \<Rightarrow> (Some e, [])
                | Inr arrayOfResults \<Rightarrow>
                    (map_option ScanFailed (Scan arrayOfResults), [arrayOfResults]))
           | _ \<Rightarrow>
               if columns = [] then (map_option ScanFailed (Scan []), [[]])
               else (Some ReflectPanic, []))
      | _ \<Rightarrow> (Some (PointerExpected Struct), []))"

text \<open>The ways a column can meet the struct: no field of the transformed name, a field
  behind a nil embedded pointer, a field that cannot be set, and the destination it gets
  otherwise. A column stops the loop when it is reached in one of the first three ways,
  the first only without \<open>ignoreMissingFields\<close>; \<open>column_error\<close> is the error it stops
  with.\<close>

definition missing :: "(string \<Rightarrow> string) \<Rightarrow> field list \<Rightarrow> string \<Rightarrow> bool" where
  "missing transform fs c = (FieldByName fs (transform c) = Inr None)"

definition panics :: "(string \<Rightarrow> string) \<Rightarrow> field list \<Rightarrow> string \<Rightarrow> bool" where
  "panics transform fs c = (FieldByName fs (transform c) = Inl NilEmbeddedPointer)"

definition unsettable :: "(string \<Rightarrow> string) \<Rightarrow> field list \<Rightarrow> string \<Rightarrow> bool" where
  "unsettable transform fs c =
     (case FieldByName fs (transform c) of Inr (Some f) \<Rightarrow> \<not> can_set f | _ \<Rightarrow> False)"

definition column_dest :: "(string \<Rightarrow> string) \<Rightarrow> field list \<Rightarrow> string \<Rightarrow> dest" where
  "column_dest transform fs c =
     (case FieldByName fs (transform c) of Inr (Some f) \<Rightarrow> FieldAddr (index f) | _ \<Rightarrow> Discard)"

definition stops :: "bool \<Rightarrow> (string \<Rightarrow> string) \<Rightarrow> field list \<Rightarrow> string \<Rightarrow> bool" where
  "stops ignoreMissingFields transform fs c =
     (panics transform fs c \<or> unsettable transform fs c \<or>
      (missing transform fs c \<and> \<not> ignoreMissingFields))"

definition column_error :: "(string \<Rightarrow> string) \<Rightarrow> field list \<Rightarrow> string \<Rightarrow> 'e map_error" where
  "column_error transform fs c =
     (case FieldByName fs (transform c) of
        Inl p \<Rightarrow> ReflectPanic
      | Inr None \<Rightarrow> NoFieldFound (transform c)
      | Inr (Some f) \<Rightarrow> UnexportedField (transform c))"

definition first_transform :: "(string \<Rightarrow> string) list \<Rightarrow> string \<Rightarrow> string" where
  "first_transform transforms = (case transforms of [] \<Rightarrow> noop | t # _ \<Rightarrow> t)"

text \<open>A struct that embeds another, \<open>type Inner struct { X int; y int }\<close> and
  \<open>type Outer struct { *Inner; B int }\<close>, with the embedded pointer nil or not.\<close>

definition Outer :: "bool \<Rightarrow> field list" where
  "Outer nil =
     [\<lparr>Name = ''Inner'', Tag = [], Settable = True,
       Embeds = Some (EmbeddedStruct nil [Promoted ''X'' True None, Promoted ''y'' False None])\<rparr>,
      \<lparr>Name = ''B'', Tag = [], Settable = True, Embeds = None\<rparr>]"

section \<open>The document manager (package mongo)\<close>

subsection \<open>Tag parser\<close>

text \<open>Modelled from the spec: package \<open>mongo\<close> (the DocumentManager) is not under src/, only
  its tests are (mongo/mongo_test.go); the data model of section 3 is written out here. An
  object identifier is an opaque 12-byte value and is modelled as a number, \<open>0\<close> being the
  zero value "not yet persisted". An entity in memory is named by its address \<open>ref\<close> in
  the arena (section 9), so that pointer identity is equality of addresses.\<close>

type_synonym oid = nat
type_synonym ref = nat

text \<open>Modelled from the spec: the value of a scalar field (the strings and times of the
  test types; \<open>Null\<close> for a field that holds nothing).\<close>

datatype val = Str string | Num int | Null

text \<open>Modelled from the spec: \<open>kind\<close> of the RelationshipDescriptor, one or many.\<close>

datatype rel_kind = One | Many

text \<open>Modelled from the spec: the members of \<open>cascade\<close>, a subset of persist and remove.\<close>

datatype cascade_op = CascadePersist | CascadeRemove

text \<open>Modelled from the spec: the RelationshipDescriptor of section 3. The side is owning
  when \<open>mappedBy\<close> is \<open>None\<close> and inverse otherwise.\<close>

record descriptor =
  kind :: rel_kind
  target :: string
  mappedBy :: "string option"
  cascade :: "cascade_op list"

text \<open>Modelled from the spec: the parse errors of the Tag Parser (section 4.1).\<close>

datatype parse_error =
    Malformed
  | UnknownKind string
  | UnknownKey string
  | DuplicateKey
  | MissingTargetDocument
  | BadCascade string

text \<open>Modelled from the spec: the white space that is insignificant in the argument list of
  an annotation.\<close>

definition ascii_space :: "char \<Rightarrow> bool" where
  "ascii_space c = (c \<in> set [CHR 0x09, CHR 0x0A, CHR 0x0B, CHR 0x0C, CHR 0x0D, CHR 0x20])"

text \<open>Modelled from the spec: one \<open>key:value\<close> item of the grammar of section 4.1, cut at
  its first colon.\<close>

definition split_pair :: "string \<Rightarrow> (string \<times> string) option" where
  "split_pair item =
     (case dropWhile (\<lambda>c. c \<noteq> CHR '':'') item of
        [] \<Rightarrow> None
      | _ # v \<Rightarrow> Some (takeWhile (\<lambda>c. c \<noteq> CHR '':'') item, v))"

text \<open>Modelled from the spec: an argument list is read when each of its items is.\<close>

fun all_some :: "'a option list \<Rightarrow> 'a list option" where
  "all_some [] = Some []"
| "all_some (None # xs) = None"
| "all_some (Some x # xs) = (case all_some xs of None \<Rightarrow> None | Some ys \<Rightarrow> Some (x # ys))"

text \<open>Modelled from the spec: the grammar \<open>kind ( key:value , key:value ... )\<close> of
  section 4.1: the kind before the opening parenthesis, and the items of the argument list,
  separated by commas, white space removed.\<close>

definition split_annotation :: "string \<Rightarrow> (string \<times> (string \<times> string) list) option" where
  "split_annotation a =
     (case dropWhile (\<lambda>c. c \<noteq> CHR ''('') a of
        [] \<Rightarrow> None
      | _ # body \<Rightarrow>
          if body = [] \<or> last body \<noteq> CHR '')'' then None
          else let args = filter (\<lambda>c. \<not> ascii_space c) (butlast body) in
               (case (if args = [] then Some [] else all_some (map split_pair (Split args CHR '',''))) of
                  None \<Rightarrow> None
                | Some kvs \<Rightarrow> Some (takeWhile (\<lambda>c. c \<noteq> CHR ''('') a, kvs)))"

text \<open>Modelled from the spec: the cascade value \<open>persist\<close>, \<open>remove\<close> or \<open>all\<close>, where
  \<open>all\<close> expands to both. The annotations of mongo_test.go lines 34 and 184 write
  \<open>cascade:Persist\<close>, they register without error (line 241) and they cascade persist
  (line 98 finds the role that only the user's cascade persisted), so the parser of the
  repository reads the value without regard to letter case; the model lowers it first.\<close>

definition cascade_of :: "string \<Rightarrow> cascade_op list option" where
  "cascade_of v =
     (let l = map ascii_lower v in
      if l = ''persist'' then Some [CascadePersist]
      else if l = ''remove'' then Some [CascadeRemove]
      else if l = ''all'' then Some [CascadePersist, CascadeRemove]
      else None)"

text \<open>Modelled from the spec: the recognized keys of section 4.1.\<close>

definition known_keys :: "string list" where
  "known_keys = [''targetDocument'', ''mappedBy'', ''cascade'']"

text \<open>Modelled from the spec: section 4.1. An unknown kind, an unknown key, a duplicate key,
  a missing \<open>targetDocument\<close> and an unknown cascade value are errors.\<close>

definition build_descriptor :: "string \<Rightarrow> (string \<times> string) list \<Rightarrow> parse_error + descriptor" where
  "build_descriptor k kvs =
     (if k \<noteq> ''referenceOne'' \<and> k \<noteq> ''referenceMany'' then Inl (UnknownKind k)
      else case find (\<lambda>key. key \<notin> set known_keys) (map fst kvs) of
        Some key \<Rightarrow> Inl (UnknownKey key)
      | None \<Rightarrow>
          if \<not> distinct (map fst kvs) then Inl DuplicateKey
          else case map_of kvs ''targetDocument'' of
            None \<Rightarrow> Inl MissingTargetDocument
          | Some t \<Rightarrow>
              (case (case map_of kvs ''cascade'' of None \<Rightarrow> Some [] | Some v \<Rightarrow> cascade_of v) of
                 None \<Rightarrow> Inl (BadCascade (the (map_of kvs ''cascade'')))
               | Some c \<Rightarrow>
                   Inr \<lparr>kind = (if k = ''referenceOne'' then One else Many), target = t,
                        mappedBy = map_of kvs ''mappedBy'', cascade = c\<rparr>))"

text \<open>Modelled from the spec: the Tag Parser (component C1), from the annotation string to
  a RelationshipDescriptor or a parse error.\<close>

definition parse_annotation :: "string \<Rightarrow> parse_error + descriptor" where
  "parse_annotation a =
     (case split_annotation a of
        None \<Rightarrow> Inl Malformed
      | Some (k, kvs) \<Rightarrow> build_descriptor k kvs)"


subsection \<open>Catalog\<close>

text \<open>Modelled from the spec: a declared field of a record type as \<open>Register\<close> inspects it:
  its name, its storage annotation (the \<open>bson\<close> tag of the test types) and its relationship
  annotation (the \<open>odm\<close> tag), each absent or present.\<close>

record field_decl =
  fd_name :: string
  fd_bson :: "string option"
  fd_odm :: "string option"

text \<open>Modelled from the spec: the storage key of a field (package \<open>mongo\<close> and the driver
  it writes through are not under src/). The storage annotation names the key (the text
  before the first comma, as in \<open>_id,omitempty\<close>; what follows the comma is not
  interpreted). Without a storage name the spec (section 6) asks for the declared name as
  it is, but says in section 9 that the source stores the lower-cased name, the default of
  the driver; mongo_test.go agrees: line 59 finds the user by the key \<open>name\<close> of the
  untagged field \<open>Name\<close>, line 158 states the lowering, and the documents shown at lines
  273 to 282 have the keys \<open>author\<close> and \<open>tags\<close>. The model follows the source: the
  default is \<open>strings.ToLower\<close> of the declared name, as the driver computes it, and a
  field annotated \<open>-\<close> has no key: the driver leaves it out of the document.\<close>

definition storage_key :: "(string \<Rightarrow> string) \<Rightarrow> field_decl \<Rightarrow> string option" where
  "storage_key ulower fd =
     (let t = (case fd_bson fd of None \<Rightarrow> [] | Some t \<Rightarrow> t);
          k = takeWhile (\<lambda>c. c \<noteq> CHR '','') t
      in if t = ''-'' then None
         else if k = [] then Some (ToLower ulower (fd_name fd))
         else Some k)"

text \<open>Modelled from the spec: the Type Metadata of section 3: identity field, scalar fields
  (each with its storage key), relationships, and the storage keys of the relationship
  fields; a field without storage key is in neither list of keys. The collection of a type
  is named by the name it is registered under.\<close>

record type_meta =
  identityField :: string
  scalarFields :: "(string \<times> string) list"
  relationships :: "(string \<times> descriptor) list"
  relKeys :: "(string \<times> string) list"

text \<open>Modelled from the spec: the error taxonomy of section 7.\<close>

datatype odm_error = ConfigurationError | UsageError | NotFound | DriverError | IntegrityError

text \<open>Modelled from the spec: an entity in memory (section 3): the registered name of its
  type, its identity, its scalar fields by name, and its relationship fields by name, each
  holding the addresses it references (none or one for a \<open>referenceOne\<close>).\<close>

record entity =
  etype :: string
  eid :: oid
  scalars :: "(string \<times> val) list"
  links :: "(string \<times> ref list) list"

text \<open>Modelled from the spec: a stored document (section 4.3, document serialization):
  \<open>_id\<close>, the scalar fields under their storage keys, and the identifiers of the owning
  relationship fields under theirs.\<close>

record doc =
  did :: oid
  dscalars :: "(string \<times> val) list"
  drefs :: "(string \<times> oid list) list"

text \<open>Modelled from the spec: a DocumentManager session (sections 3, 4.3 and 5): the
  metadata catalog, the arena of entities, the identity map from (type, identifier) to
  entity, the three stage tables, the database it holds a handle to (each collection with
  its documents in insertion order), and the last identifier handed out.\<close>

record session =
  meta :: "(string \<times> type_meta) list"
  heap :: "entity list"
  imap :: "((string \<times> oid) \<times> ref) list"
  scheduledInsert :: "ref list"
  scheduledUpdate :: "ref list"
  scheduledRemove :: "ref list"
  db :: "(string \<times> doc list) list"
  idgen :: oid

text \<open>Modelled from the spec: a new session on a database.\<close>

definition NewDocumentManager :: "(string \<times> doc list) list \<Rightarrow> session" where
  "NewDocumentManager database =
     \<lparr>meta = [], heap = [], imap = [], scheduledInsert = [], scheduledUpdate = [],
      scheduledRemove = [], db = database, idgen = 0\<rparr>"

text \<open>Modelled from the spec: section 4.2, "for each field with a relationship annotation,
  invokes C1 to build its descriptor"; a parse error is a configuration error.\<close>

fun parse_fields :: "field_decl list \<Rightarrow> odm_error + (string \<times> descriptor) list" where
  "parse_fields [] = Inr []"
| "parse_fields (fd # fds) =
     (case fd_odm fd of
        None \<Rightarrow> parse_fields fds
      | Some a \<Rightarrow>
          (case parse_annotation a of
             Inl e \<Rightarrow> Inl ConfigurationError
           | Inr d \<Rightarrow>
               (case parse_fields fds of
                  Inl e \<Rightarrow> Inl e
                | Inr ds \<Rightarrow> Inr ((fd_name fd, d) # ds))))"

text \<open>Modelled from the spec: the fields of a declared type with their storage keys, the
  fields that have none left out.\<close>

definition keyed :: "(string \<Rightarrow> string) \<Rightarrow> field_decl list \<Rightarrow> (string \<times> string) list" where
  "keyed ulower decl =
     concat (map (\<lambda>fd. case storage_key ulower fd of None \<Rightarrow> [] | Some k \<Rightarrow> [(fd_name fd, k)]) decl)"

text \<open>Modelled from the spec: \<open>Register\<close> of section 4.2. Registering a name again is an
  error; the identity field is the one whose storage key is \<open>_id\<close>, and there must be
  exactly one; the fields without relationship annotation are the scalar fields.\<close>

definition Register ::
  "(string \<Rightarrow> string) \<Rightarrow> string \<Rightarrow> field_decl list \<Rightarrow> session \<Rightarrow> odm_error + session" where
  "Register ulower name decl s =
     (if map_of (meta s) name \<noteq> None then Inl ConfigurationError
      else case filter (\<lambda>fd. storage_key ulower fd = Some ''_id'') decl of
        [idf] \<Rightarrow>
          (case parse_fields decl of
             Inl e \<Rightarrow> Inl e
           | Inr rels \<Rightarrow>
               Inr (s\<lparr>meta := meta s @
                     [(name,
                       \<lparr>identityField = fd_name idf,
                        scalarFields =
                          keyed ulower
                            (filter (\<lambda>fd. fd_odm fd = None \<and> storage_key ulower fd \<noteq> Some ''_id'') decl),
                        relationships = rels,
                        relKeys = keyed ulower (filter (\<lambda>fd. fd_odm fd \<noteq> None) decl)\<rparr>)]\<rparr>))
      | _ \<Rightarrow> Inl ConfigurationError)"

text \<open>Modelled from the spec: \<open>RegisterMany\<close> of section 4.2; on a failure the entries
  registered before it stay registered.\<close>

fun RegisterMany ::
  "(string \<Rightarrow> string) \<Rightarrow> (string \<times> field_decl list) list \<Rightarrow> session \<Rightarrow> odm_error option \<times> session" where
  "RegisterMany ulower [] s = (None, s)"
| "RegisterMany ulower ((name, decl) # rest) s =
     (case Register ulower name decl s of
        Inl e \<Rightarrow> (Some e, s)
      | Inr s' \<Rightarrow> RegisterMany ulower rest s')"

text \<open>Modelled from the spec: the invariant of section 3 for one descriptor: its target is
  registered, and an inverse descriptor has on the target an owning descriptor on the field
  \<open>mappedBy\<close> that points back.\<close>

definition companion_ok :: "(string \<times> type_meta) list \<Rightarrow> string \<Rightarrow> descriptor \<Rightarrow> bool" where
  "companion_ok cat T d =
     (case map_of cat (target d) of
        None \<Rightarrow> False
      | Some m' \<Rightarrow>
          (case mappedBy d of
             None \<Rightarrow> True
           | Some g \<Rightarrow>
               (case map_of (relationships m') g of
                  None \<Rightarrow> False
                | Some d' \<Rightarrow> mappedBy d' = None \<and> target d' = T)))"

text \<open>Modelled from the spec: the post-registration validation of section 4.2, run on the
  first use that traverses relationships.\<close>

definition valid_catalog :: "(string \<times> type_meta) list \<Rightarrow> bool" where
  "valid_catalog cat =
     list_all (\<lambda>(T, m). list_all (\<lambda>(f, d). companion_ok cat T d) (relationships m)) cat"

subsection \<open>Entities and their references\<close>

text \<open>Modelled from the spec: the entities a relationship field of an entity holds.\<close>

definition links_of :: "entity \<Rightarrow> string \<Rightarrow> ref list" where
  "links_of e f = (case map_of (links e) f of None \<Rightarrow> [] | Some rs \<Rightarrow> rs)"

text \<open>Modelled from the spec: the entities referenced through a field, at most one for a
  \<open>referenceOne\<close>.\<close>

definition field_refs :: "descriptor \<Rightarrow> entity \<Rightarrow> string \<Rightarrow> ref list" where
  "field_refs d e f = (case kind d of One \<Rightarrow> take 1 (links_of e f) | Many \<Rightarrow> links_of e f)"

text \<open>Modelled from the spec: the relationships of the type of an entity (none when the
  type is not registered).\<close>

definition entity_rels :: "session \<Rightarrow> entity \<Rightarrow> (string \<times> descriptor) list" where
  "entity_rels s e = (case map_of (meta s) (etype e) of None \<Rightarrow> [] | Some m \<Rightarrow> relationships m)"

text \<open>Modelled from the spec: section 4.3, cascade semantics: the entities referenced
  through the owning relationships whose cascade includes the operation.\<close>

definition cascade_children :: "cascade_op \<Rightarrow> session \<Rightarrow> ref \<Rightarrow> ref list" where
  "cascade_children c s r =
     concat (map (\<lambda>(f, d). if mappedBy d = None \<and> c \<in> set (cascade d)
                            then field_refs d (heap s ! r) f else [])
               (entity_rels s (heap s ! r)))"

text \<open>Modelled from the spec: the entities an entity references through its owning
  relationships (the dependency rule of the flush order).\<close>

definition owned_refs :: "session \<Rightarrow> ref \<Rightarrow> ref list" where
  "owned_refs s r =
     concat (map (\<lambda>(f, d). if mappedBy d = None then field_refs d (heap s ! r) f else [])
               (entity_rels s (heap s ! r)))"

text \<open>Modelled from the spec: the key of an entity in the identity map.\<close>

definition ident :: "session \<Rightarrow> ref \<Rightarrow> string \<times> oid" where
  "ident s r = (etype (heap s ! r), eid (heap s ! r))"

subsection \<open>Identifier generation\<close>

text \<open>Modelled from the spec: the identifiers present in the session and its database.\<close>

definition used_ids :: "session \<Rightarrow> oid list" where
  "used_ids s =
     idgen s # map eid (heap s) @ map (\<lambda>(k, r). snd k) (imap s) @
       concat (map (\<lambda>(T, ds). map did ds) (db s))"

text \<open>Modelled from the spec: identifier generation (section 6). A generated identifier is
  new; the model takes the successor of the largest identifier in use.\<close>

definition NewObjectId :: "session \<Rightarrow> oid" where
  "NewObjectId s = Suc (fold max (used_ids s) 0)"

subsection \<open>Persist\<close>

text \<open>Modelled from the spec: membership in one of the three stage tables.\<close>

definition staged :: "session \<Rightarrow> ref \<Rightarrow> bool" where
  "staged s r =
     (r \<in> set (scheduledInsert s) \<or> r \<in> set (scheduledUpdate s) \<or> r \<in> set (scheduledRemove s))"

text \<open>Modelled from the spec: an entity is tracked when it is staged or an entity is
  managed under its key in the identity map.\<close>

definition tracked :: "session \<Rightarrow> ref \<Rightarrow> bool" where
  "tracked s r = (staged s r \<or> map_of (imap s) (ident s r) \<noteq> None)"

text \<open>Modelled from the spec: \<open>Persist\<close> of a new entity (section 4.3): an identifier is
  assigned at once when the identity is zero, the entity enters the identity map and the
  table \<open>scheduledInsert\<close>.\<close>

definition stage_new :: "ref \<Rightarrow> session \<Rightarrow> session" where
  "stage_new r s =
     (let e = heap s ! r;
          x = (if eid e = 0 then NewObjectId s else eid e)
      in s\<lparr>heap := (heap s)[r := e\<lparr>eid := x\<rparr>],
            imap := ((etype e, x), r) # imap s,
            scheduledInsert := scheduledInsert s @ [r],
            idgen := (if eid e = 0 then x else idgen s)\<rparr>)"

text \<open>Modelled from the spec: the entities of the arena that are not tracked (what is left
  for the cascade to stage).\<close>

definition untracked :: "session \<Rightarrow> ref list" where
  "untracked s = filter (\<lambda>r. \<not> tracked s r) [0..<length (heap s)]"

text \<open>Modelled from the spec: cascade on persist (section 4.3). The entities still to visit
  wait in a list, depth first: an entity already tracked is skipped (which breaks cycles),
  a new one is staged and the entities it references through owning relationships with
  \<open>persist\<close> in their cascade are visited next.\<close>

function cascade_persist :: "ref list \<Rightarrow> session \<Rightarrow> session" where
  "cascade_persist [] s = s"
| "cascade_persist (r # rs) s =
     (if r < length (heap s) \<and> \<not> tracked s r
      then cascade_persist (cascade_children CascadePersist (stage_new r s) r @ rs) (stage_new r s)
      else cascade_persist rs s)"
  by pat_completeness auto

lemma tracked_stage_new:
  "r < length (heap s) \<Longrightarrow> tracked s q \<or> q = r \<Longrightarrow> tracked (stage_new r s) q"
  unfolding tracked_def staged_def stage_new_def ident_def Let_def
  by (cases "q = r") (auto simp: nth_list_update)

lemma length_heap_stage_new [simp]: "length (heap (stage_new r s)) = length (heap s)"
  by (simp add: stage_new_def Let_def)

lemma length_filter_shrink:
  assumes "\<And>q. P q \<Longrightarrow> Q q" "r \<in> set xs" "Q r" "\<not> P r"
  shows "length (filter P xs) < length (filter Q xs)"
proof -
  have "filter P xs = filter P (filter Q xs)"
    using assms(1) by (induction xs) auto
  moreover have "length (filter P (filter Q xs)) < length (filter Q xs)"
    by (rule length_filter_less [of r]) (use assms in auto)
  ultimately show ?thesis by simp
qed

lemma untracked_stage_new:
  assumes "r < length (heap s)" "\<not> tracked s r"
  shows "length (untracked (stage_new r s)) < length (untracked s)"
proof -
  have "length (filter (\<lambda>q. \<not> tracked (stage_new r s) q) [0..<length (heap s)])
          < length (filter (\<lambda>q. \<not> tracked s q) [0..<length (heap s)])"
  proof (rule length_filter_shrink [of _ _ r])
    show "r \<in> set [0..<length (heap s)]" using assms(1) by simp
    show "\<not> tracked s r" by (rule assms(2))
    show "\<not> \<not> tracked (stage_new r s) r"
      using tracked_stage_new [OF assms(1), of r] by simp
  next
    fix q assume "\<not> tracked (stage_new r s) q"
    then show "\<not> tracked s q"
      using tracked_stage_new [OF assms(1), of q] by blast
  qed
  then show ?thesis by (simp add: untracked_def)
qed

termination cascade_persist
proof (relation "measures [\<lambda>(rs, s). length (untracked s), \<lambda>(rs, s). length rs]")
  show "wf (measures [\<lambda>(rs, s). length (untracked s), \<lambda>(rs, s). length rs])" by simp
next
  fix r :: ref and rs :: "ref list" and s :: session
  assume "r < length (heap s) \<and> \<not> tracked s r"
  then show "((cascade_children CascadePersist (stage_new r s) r @ rs, stage_new r s), r # rs, s)
      \<in> measures [\<lambda>(rs, s). length (untracked s), \<lambda>(rs, s). length rs]"
    using untracked_stage_new [of r s] by simp
next
  fix r :: ref and rs :: "ref list" and s :: session
  show "((rs, s), r # rs, s) \<in> measures [\<lambda>(rs, s). length (untracked s), \<lambda>(rs, s). length rs]"
    by simp
qed

text \<open>Modelled from the spec: \<open>Persist\<close> of section 4.3. The catalog is validated; an entity
  of an unregistered type is a usage error; an entity already staged is left as it is; a
  managed entity is scheduled for update (the explicit re-persist of section 9) and a new
  one for insertion, and the cascade follows.\<close>

definition Persist :: "ref \<Rightarrow> session \<Rightarrow> odm_error + session" where
  "Persist r s =
     (if \<not> valid_catalog (meta s) then Inl ConfigurationError
      else if \<not> r < length (heap s) then Inl UsageError
      else if map_of (meta s) (etype (heap s ! r)) = None then Inl UsageError
      else if staged s r then Inr s
      else if map_of (imap s) (ident s r) = Some r
      then Inr (cascade_persist (cascade_children CascadePersist s r)
                  (s\<lparr>scheduledUpdate := scheduledUpdate s @ [r]\<rparr>))
      else Inr (cascade_persist [r] s))"


subsection \<open>Remove\<close>

text \<open>Modelled from the spec: \<open>Remove\<close> marks the entity for deletion; it leaves the other
  two tables, a given entity being in at most one.\<close>

definition stage_remove :: "ref \<Rightarrow> session \<Rightarrow> session" where
  "stage_remove r s =
     s\<lparr>scheduledInsert := removeAll r (scheduledInsert s),
       scheduledUpdate := removeAll r (scheduledUpdate s),
       scheduledRemove := scheduledRemove s @ [r]\<rparr>"

text \<open>Modelled from the spec: the entities of the arena that are not scheduled for
  removal.\<close>

definition unremoved :: "session \<Rightarrow> ref list" where
  "unremoved s = filter (\<lambda>r. r \<notin> set (scheduledRemove s)) [0..<length (heap s)]"

text \<open>Modelled from the spec: cascade on remove (section 4.3), symmetric to persist: owning
  relationships with \<open>remove\<close> in their cascade propagate the removal; inverse-side fields
  never do.\<close>

function cascade_remove :: "ref list \<Rightarrow> session \<Rightarrow> session" where
  "cascade_remove [] s = s"
| "cascade_remove (r # rs) s =
     (if r < length (heap s) \<and> r \<notin> set (scheduledRemove s)
      then cascade_remove (cascade_children CascadeRemove s r @ rs) (stage_remove r s)
      else cascade_remove rs s)"
  by pat_completeness auto

lemma unremoved_stage_remove:
  assumes "r < length (heap s)" "r \<notin> set (scheduledRemove s)"
  shows "length (unremoved (stage_remove r s)) < length (unremoved s)"
proof -
  have "length (filter (\<lambda>q. q \<notin> set (scheduledRemove s @ [r])) [0..<length (heap s)])
          < length (filter (\<lambda>q. q \<notin> set (scheduledRemove s)) [0..<length (heap s)])"
    by (rule length_filter_shrink [of _ _ r]) (use assms in auto)
  then show ?thesis by (simp add: unremoved_def stage_remove_def)
qed

termination cascade_remove
proof (relation "measures [\<lambda>(rs, s). length (unremoved s), \<lambda>(rs, s). length rs]")
  show "wf (measures [\<lambda>(rs, s). length (unremoved s), \<lambda>(rs, s). length rs])" by simp
next
  fix r :: ref and rs :: "ref list" and s :: session
  assume "r < length (heap s) \<and> r \<notin> set (scheduledRemove s)"
  then show "((cascade_children CascadeRemove s r @ rs, stage_remove r s), r # rs, s)
      \<in> measures [\<lambda>(rs, s). length (unremoved s), \<lambda>(rs, s). length rs]"
    using unremoved_stage_remove [of r s] by simp
next
  fix r :: ref and rs :: "ref list" and s :: session
  show "((rs, s), r # rs, s) \<in> measures [\<lambda>(rs, s). length (unremoved s), \<lambda>(rs, s). length rs]"
    by simp
qed

text \<open>Modelled from the spec: \<open>Remove\<close> of section 4.3.\<close>

definition Remove :: "ref \<Rightarrow> session \<Rightarrow> odm_error + session" where
  "Remove r s =
     (if \<not> valid_catalog (meta s) then Inl ConfigurationError
      else if \<not> r < length (heap s) then Inl UsageError
      else if map_of (meta s) (etype (heap s ! r)) = None then Inl UsageError
      else Inr (cascade_remove [r] s))"

subsection \<open>The store\<close>

text \<open>Modelled from the spec: the documents of a collection of the database (section 6).\<close>

definition coll :: "(string \<times> doc list) list \<Rightarrow> string \<Rightarrow> doc list" where
  "coll database T = (case map_of database T of None \<Rightarrow> [] | Some ds \<Rightarrow> ds)"

text \<open>Modelled from the spec: the driver's lookup of a document by identifier.\<close>

definition find_doc :: "(string \<times> doc list) list \<Rightarrow> string \<Rightarrow> oid \<Rightarrow> doc option" where
  "find_doc database T x = find (\<lambda>d. did d = x) (coll database T)"

text \<open>Modelled from the spec: \<open>insert(doc)\<close> of the driver abstraction (section 6). As in the
  store of the source, a second document with an identifier of the collection is refused.\<close>

definition driver_insert ::
  "string \<Rightarrow> doc \<Rightarrow> (string \<times> doc list) list \<Rightarrow> odm_error + (string \<times> doc list) list" where
  "driver_insert T d database =
     (if find_doc database T (did d) \<noteq> None then Inl DriverError
      else Inr (AList.update T (coll database T @ [d]) database))"

text \<open>Modelled from the spec: \<open>updateByID(id, doc)\<close> of the driver abstraction; with no
  document of that identifier the driver reports an error.\<close>

definition driver_update ::
  "string \<Rightarrow> doc \<Rightarrow> (string \<times> doc list) list \<Rightarrow> odm_error + (string \<times> doc list) list" where
  "driver_update T d database =
     (if find_doc database T (did d) = None then Inl DriverError
      else Inr (AList.update T
                  (map (\<lambda>d'. if did d' = did d then d else d') (coll database T)) database))"

text \<open>Modelled from the spec: \<open>removeByID(id)\<close> of the driver abstraction; with no
  document of that identifier the driver reports an error.\<close>

definition driver_remove ::
  "string \<Rightarrow> oid \<Rightarrow> (string \<times> doc list) list \<Rightarrow> odm_error + (string \<times> doc list) list" where
  "driver_remove T x database =
     (if find_doc database T x = None then Inl DriverError
      else Inr (AList.update T (filter (\<lambda>d'. did d' \<noteq> x) (coll database T)) database))"

subsection \<open>Flush\<close>

text \<open>Modelled from the spec: the storage key of a relationship field, if it has one.\<close>

definition rel_key :: "type_meta \<Rightarrow> string \<Rightarrow> string option" where
  "rel_key m f = map_of (relKeys m) f"

text \<open>Modelled from the spec: document serialization (section 4.3): the identity as
  \<open>_id\<close>, each scalar field under its storage key, each owning relationship field under
  its storage key as the identifiers of the referenced entities in order, and no
  inverse-side field.\<close>

definition to_document :: "session \<Rightarrow> type_meta \<Rightarrow> entity \<Rightarrow> doc" where
  "to_document s m e =
     \<lparr>did = eid e,
      dscalars = map (\<lambda>(f, k). (k, case map_of (scalars e) f of None \<Rightarrow> Null | Some v \<Rightarrow> v))
                   (scalarFields m),
      drefs = concat (map (\<lambda>(f, d).
                 case rel_key m f of
                   None \<Rightarrow> []
                 | Some k \<Rightarrow>
                     if mappedBy d = None
                     then [(k, map (\<lambda>c. eid (heap s ! c))
                                 (filter (\<lambda>c. c < length (heap s)) (field_refs d e f)))]
                     else []) (relationships m))\<rparr>"

text \<open>Modelled from the spec: an entity can be inserted when the entities it references
  through owning relationships are not waiting for insertion.\<close>

definition ready_insert :: "session \<Rightarrow> ref list \<Rightarrow> ref \<Rightarrow> bool" where
  "ready_insert s pending r = list_all (\<lambda>c. c = r \<or> c \<notin> set pending) (owned_refs s r)"

text \<open>Modelled from the spec: an entity can be removed when no other entity waiting for
  removal references it through an owning relationship.\<close>

definition ready_remove :: "session \<Rightarrow> ref list \<Rightarrow> ref \<Rightarrow> bool" where
  "ready_remove s pending r = list_all (\<lambda>q. q = r \<or> r \<notin> set (owned_refs s q)) pending"

text \<open>Modelled from the spec: the next entity of a phase: the first one, in staging order,
  that is ready, and the first one of all when a cycle leaves none ready.\<close>

definition pick :: "(ref \<Rightarrow> bool) \<Rightarrow> ref list \<Rightarrow> ref option" where
  "pick ready pending =
     (case pending of
        [] \<Rightarrow> None
      | p # ps \<Rightarrow> (case find ready pending of None \<Rightarrow> Some p | Some r \<Rightarrow> Some r))"

lemma find_in_set: "find P xs = Some x \<Longrightarrow> x \<in> set xs"
  by (induction xs) (auto split: if_splits)

lemma pick_in:
  assumes "pick ready pending = Some r"
  shows "r \<in> set pending"
proof (cases pending)
  case Nil
  with assms show ?thesis by (simp add: pick_def)
next
  case (Cons p ps)
  show ?thesis
  proof (cases "find ready pending")
    case None
    with assms Cons have "r = p" by (simp add: pick_def del: find.simps)
    with Cons show ?thesis by simp
  next
    case (Some q)
    with assms Cons have "r = q" by (simp add: pick_def del: find.simps)
    with Some show ?thesis by (auto dest: find_in_set)
  qed
qed

text \<open>Modelled from the spec: the flush order of sections 4.3 and 5: the dependency rule,
  with the staging order as secondary key.\<close>

function dependency_order :: "(ref list \<Rightarrow> ref \<Rightarrow> bool) \<Rightarrow> ref list \<Rightarrow> ref list" where
  "dependency_order ready pending =
     (case pick (ready pending) pending of
        None \<Rightarrow> []
      | Some r \<Rightarrow> r # dependency_order ready (remove1 r pending))"
  by pat_completeness auto

termination dependency_order
proof (relation "measure (\<lambda>(ready, pending). length pending)")
  show "wf (measure (\<lambda>(ready, pending). length pending))" by simp
next
  fix ready :: "ref list \<Rightarrow> ref \<Rightarrow> bool" and pending :: "ref list" and r :: ref
  assume "pick (ready pending) pending = Some r"
  then have "r \<in> set pending" by (rule pick_in)
  then show "((ready, remove1 r pending), ready, pending) \<in> measure (\<lambda>(ready, pending). length pending)"
    by (simp add: length_remove1) (cases pending; auto)
qed

text \<open>Modelled from the spec: the insertion of one staged entity; an entity of an
  unregistered type is an integrity error; after the write the entity is managed.\<close>

definition write_insert :: "ref \<Rightarrow> session \<Rightarrow> odm_error + session" where
  "write_insert r s =
     (if \<not> r < length (heap s) then Inl IntegrityError
      else case map_of (meta s) (etype (heap s ! r)) of
        None \<Rightarrow> Inl IntegrityError
      | Some m \<Rightarrow>
          (case driver_insert (etype (heap s ! r)) (to_document s m (heap s ! r)) (db s) of
             Inl e \<Rightarrow> Inl e
           | Inr database \<Rightarrow>
               Inr (s\<lparr>db := database, scheduledInsert := removeAll r (scheduledInsert s)\<rparr>)))"

text \<open>Modelled from the spec: the update of one staged entity.\<close>

definition write_update :: "ref \<Rightarrow> session \<Rightarrow> odm_error + session" where
  "write_update r s =
     (if \<not> r < length (heap s) then Inl IntegrityError
      else case map_of (meta s) (etype (heap s ! r)) of
        None \<Rightarrow> Inl IntegrityError
      | Some m \<Rightarrow>
          (case driver_update (etype (heap s ! r)) (to_document s m (heap s ! r)) (db s) of
             Inl e \<Rightarrow> Inl e
           | Inr database \<Rightarrow>
               Inr (s\<lparr>db := database, scheduledUpdate := removeAll r (scheduledUpdate s)\<rparr>)))"

text \<open>Modelled from the spec: the removal of one staged entity; it leaves the identity map
  (section 4.5).\<close>

definition write_remove :: "ref \<Rightarrow> session \<Rightarrow> odm_error + session" where
  "write_remove r s =
     (if \<not> r < length (heap s) then Inl IntegrityError
      else case driver_remove (etype (heap s ! r)) (eid (heap s ! r)) (db s) of
        Inl e \<Rightarrow> Inl e
      | Inr database \<Rightarrow>
          Inr (s\<lparr>db := database, scheduledRemove := removeAll r (scheduledRemove s),
                 imap := AList.delete (ident s r) (imap s)\<rparr>))"

text \<open>Modelled from the spec: a phase of the flush; the first error aborts it, and the
  writes already applied stay (section 4.3).\<close>

fun write_all ::
  "(ref \<Rightarrow> session \<Rightarrow> odm_error + session) \<Rightarrow> ref list \<Rightarrow> session \<Rightarrow> odm_error option \<times> session" where
  "write_all w [] s = (None, s)"
| "write_all w (r # rs) s =
     (case w r s of
        Inl e \<Rightarrow> (Some e, s)
      | Inr s' \<Rightarrow> write_all w rs s')"

text \<open>Modelled from the spec: \<open>Flush\<close> of section 4.3: inserts, then updates, then removes,
  returning the first error and the session as it then is.\<close>

definition Flush :: "session \<Rightarrow> odm_error option \<times> session" where
  "Flush s =
     (case write_all write_insert (dependency_order (ready_insert s) (scheduledInsert s)) s of
        (Some e, s1) \<Rightarrow> (Some e, s1)
      | (None, s1) \<Rightarrow>
          (case write_all write_update (scheduledUpdate s1) s1 of
             (Some e, s2) \<Rightarrow> (Some e, s2)
           | (None, s2) \<Rightarrow>
               write_all write_remove (dependency_order (ready_remove s2) (scheduledRemove s2)) s2))"

subsection \<open>Hydration\<close>

text \<open>Modelled from the spec: the identifiers a document stores for a relationship field.\<close>

definition doc_ids :: "type_meta \<Rightarrow> doc \<Rightarrow> string \<Rightarrow> oid list" where
  "doc_ids m d f =
     (case rel_key m f of
        None \<Rightarrow> []
      | Some k \<Rightarrow> (case map_of (drefs d) k of None \<Rightarrow> [] | Some xs \<Rightarrow> xs))"

text \<open>Modelled from the spec: the inverse-side query of section 4.4: the documents of the
  target collection whose owning field \<open>g\<close> is, or contains, the identifier.\<close>

definition inverse_docs :: "session \<Rightarrow> string \<Rightarrow> string \<Rightarrow> oid \<Rightarrow> doc list" where
  "inverse_docs s T' g x =
     (case map_of (meta s) T' of
        None \<Rightarrow> []
      | Some m' \<Rightarrow> filter (\<lambda>d'. x \<in> set (doc_ids m' d' g)) (coll (db s) T'))"

text \<open>Modelled from the spec: hydration, step 2: a fresh entity with the scalar fields of
  the document.\<close>

definition new_entity :: "session \<Rightarrow> string \<Rightarrow> doc \<Rightarrow> entity" where
  "new_entity s T d =
     \<lparr>etype = T, eid = did d,
      scalars = (case map_of (meta s) T of
                   None \<Rightarrow> []
                 | Some m \<Rightarrow> map (\<lambda>(f, k). (f, case map_of (dscalars d) k of None \<Rightarrow> Null | Some v \<Rightarrow> v))
                              (scalarFields m)),
      links = []\<rparr>"

text \<open>Modelled from the spec: assignment to a relationship field of an entity.\<close>

definition set_links :: "ref \<Rightarrow> string \<Rightarrow> ref list \<Rightarrow> session \<Rightarrow> session" where
  "set_links r f rs s =
     s\<lparr>heap := (heap s)[r := (heap s ! r)\<lparr>links := AList.update f rs (links (heap s ! r))\<rparr>]\<rparr>"

text \<open>Modelled from the spec: hydration, step 3: what a relationship field resolves: for
  an owning field the stored identifiers that are not null, each with its document when the
  target collection has one; for an inverse field the documents of the inverse-side query.\<close>

definition field_items :: "session \<Rightarrow> string \<Rightarrow> doc \<Rightarrow> string \<Rightarrow> descriptor \<Rightarrow> (oid \<times> doc option) list" where
  "field_items s T d f desc =
     (case mappedBy desc of
        None \<Rightarrow>
          (case map_of (meta s) T of
             None \<Rightarrow> []
           | Some m \<Rightarrow> map (\<lambda>x. (x, find_doc (db s) (target desc) x))
                         (filter (\<lambda>x. x \<noteq> 0) (doc_ids m d f)))
      | Some g \<Rightarrow> map (\<lambda>d'. (did d', Some d')) (inverse_docs s (target desc) g (did d)))"

text \<open>Modelled from the spec: the Hydrator (section 4.4). \<open>hydrate\<close> is steps 1 and 2: the
  entity of the identity map when the key is there, else a fresh entity, registered before
  its references are resolved. \<open>hydrate_fields\<close> is step 3 over the relationship fields
  and \<open>hydrate_all\<close> resolves the items of one field in order, leaving out what cannot be
  resolved. The first argument bounds the depth of the recursion; \<open>None\<close> means that the
  bound was reached.\<close>

fun hydrate :: "nat \<Rightarrow> string \<Rightarrow> doc \<Rightarrow> session \<Rightarrow> (ref \<times> session) option"
and hydrate_fields ::
  "nat \<Rightarrow> ref \<Rightarrow> string \<Rightarrow> doc \<Rightarrow> (string \<times> descriptor) list \<Rightarrow> session \<Rightarrow> session option"
and hydrate_all ::
  "nat \<Rightarrow> string \<Rightarrow> (oid \<times> doc option) list \<Rightarrow> session \<Rightarrow> (ref list \<times> session) option" where
  "hydrate 0 T d s = None"
| "hydrate (Suc n) T d s =
     (case map_of (imap s) (T, did d) of
        Some r \<Rightarrow> Some (r, s)
      | None \<Rightarrow>
          (case hydrate_fields n (length (heap s)) T d
                  (case map_of (meta s) T of None \<Rightarrow> [] | Some m \<Rightarrow> relationships m)
                  (s\<lparr>heap := heap s @ [new_entity s T d],
                     imap := ((T, did d), length (heap s)) # imap s\<rparr>) of
             None \<Rightarrow> None
           | Some s' \<Rightarrow> Some (length (heap s), s')))"
| "hydrate_fields n r T d [] s = Some s"
| "hydrate_fields n r T d ((f, desc) # rest) s =
     (case hydrate_all n (target desc) (field_items s T d f desc) s of
        None \<Rightarrow> None
      | Some (rs, s') \<Rightarrow>
          hydrate_fields n r T d rest
            (set_links r f (case kind desc of One \<Rightarrow> take 1 rs | Many \<Rightarrow> rs) s'))"
| "hydrate_all n T [] s = Some ([], s)"
| "hydrate_all n T ((x, None) # rest) s =
     (case hydrate_all n T rest s of
        None \<Rightarrow> None
      | Some (rs, s') \<Rightarrow>
          Some ((case map_of (imap s) (T, x) of None \<Rightarrow> [] | Some r \<Rightarrow> [r]) @ rs, s'))"
| "hydrate_all n T ((x, Some d) # rest) s =
     (case hydrate n T d s of
        None \<Rightarrow> None
      | Some (r, s1) \<Rightarrow>
          (case hydrate_all n T rest s1 of
             None \<Rightarrow> None
           | Some (rs, s2) \<Rightarrow> Some (r # rs, s2)))"

subsection \<open>Find\<close>

text \<open>Modelled from the spec: the bound given to the Hydrator: each level of the recursion
  registers a document of the database that was not in the identity map.\<close>

definition fuel :: "session \<Rightarrow> nat" where
  "fuel s = Suc (length (concat (map snd (db s))))"

text \<open>Modelled from the spec: a filter is passed through to the driver (section 4.4); a
  document matches when it has each key of the filter with its value.\<close>

definition matches :: "(string \<times> val) list \<Rightarrow> doc \<Rightarrow> bool" where
  "matches flt d = list_all (\<lambda>(k, v). map_of (dscalars d) k = Some v) flt"

text \<open>Modelled from the spec: what the \<open>Find\<close> operations check first: the validation of the
  catalog and the registration of the destination type.\<close>

definition find_guard :: "string \<Rightarrow> session \<Rightarrow> odm_error option" where
  "find_guard T s =
     (if \<not> valid_catalog (meta s) then Some ConfigurationError
      else if map_of (meta s) T = None then Some UsageError
      else None)"

text \<open>Modelled from the spec: the result of a lookup of one document: the NotFound sentinel,
  or the hydrated entity.\<close>

definition hydrate_first :: "string \<Rightarrow> doc option \<Rightarrow> session \<Rightarrow> ((odm_error + ref) \<times> session) option" where
  "hydrate_first T found s =
     (case found of
        None \<Rightarrow> Some (Inl NotFound, s)
      | Some d \<Rightarrow>
          (case hydrate (fuel s) T d s of
             None \<Rightarrow> None
           | Some (r, s') \<Rightarrow> Some (Inr r, s')))"


text \<open>Modelled from the spec: \<open>FindOne\<close> of section 4.4, the first match.\<close>

definition FindOne :: "string \<Rightarrow> (string \<times> val) list \<Rightarrow> session \<Rightarrow> ((odm_error + ref) \<times> session) option" where
  "FindOne T flt s =
     (case find_guard T s of
        Some e \<Rightarrow> Some (Inl e, s)
      | None \<Rightarrow> hydrate_first T (find (matches flt) (coll (db s) T)) s)"

text \<open>Modelled from the spec: \<open>FindBy\<close> of section 4.4, every match in the order of the
  collection.\<close>

definition FindBy ::
  "string \<Rightarrow> (string \<times> val) list \<Rightarrow> session \<Rightarrow> ((odm_error + ref list) \<times> session) option" where
  "FindBy T flt s =
     (case find_guard T s of
        Some e \<Rightarrow> Some (Inl e, s)
      | None \<Rightarrow>
          (case hydrate_all (fuel s) T
                  (map (\<lambda>d. (did d, Some d)) (filter (matches flt) (coll (db s) T))) s of
             None \<Rightarrow> None
           | Some (rs, s') \<Rightarrow> Some (Inr rs, s')))"

text \<open>Modelled from the spec: \<open>FindAll\<close> of section 4.4.\<close>

definition FindAll :: "string \<Rightarrow> session \<Rightarrow> ((odm_error + ref list) \<times> session) option" where
  "FindAll T s = FindBy T [] s"

section \<open>The tests (mongo/mongo_test.go)\<close>

text \<open>An entity that the test allocates (\<open>&User{...}\<close>): it gets the next address of the
  arena. The tests name their entities by these addresses.\<close>

definition New :: "entity \<Rightarrow> session \<Rightarrow> odm_error + session" where
  "New e s = Inr (s\<lparr>heap := heap s @ [e]\<rparr>)"

text \<open>An entity allocated with \<open>ID: bson.NewObjectId()\<close>.\<close>

definition NewWithId :: "entity \<Rightarrow> session \<Rightarrow> odm_error + session" where
  "NewWithId e s = Inr (s\<lparr>heap := heap s @ [e\<lparr>eid := NewObjectId s\<rparr>], idgen := NewObjectId s\<rparr>)"

text \<open>\<open>err := dm.Flush()\<close> followed by \<open>test.Fatal(t, err, nil)\<close>.\<close>

definition FlushStep :: "session \<Rightarrow> odm_error + session" where
  "FlushStep s = (case Flush s of (None, s') \<Rightarrow> Inr s' | (Some e, s') \<Rightarrow> Inl e)"

text \<open>The statements of a test in order; the first error ends the test.\<close>

fun run :: "(session \<Rightarrow> odm_error + session) list \<Rightarrow> session \<Rightarrow> odm_error + session" where
  "run [] s = Inr s"
| "run (step # steps) s = (case step s of Inl e \<Rightarrow> Inl e | Inr s' \<Rightarrow> run steps s')"

text \<open>The field \<open>ID bson.ObjectId `bson:"_id,omitempty"`\<close> that every test type has.\<close>

definition id_decl :: field_decl where
  "id_decl = \<lparr>fd_name = ''ID'', fd_bson = Some ''_id,omitempty'', fd_odm = None\<rparr>"




definition Client_decl :: "field_decl list" where
  "Client_decl =
     [id_decl,
      \<lparr>fd_name = ''Name'', fd_bson = Some ''Name'', fd_odm = None\<rparr>,
      \<lparr>fd_name = ''Projects'', fd_bson = Some ''Projects,omitempty'',
       fd_odm = Some ''referenceMany(targetDocument:Project)''\<rparr>]"

definition Employee_decl :: "field_decl list" where
  "Employee_decl =
     [id_decl,
      \<lparr>fd_name = ''Name'', fd_bson = Some ''Name'', fd_odm = None\<rparr>,
      \<lparr>fd_name = ''Projects'', fd_bson = None,
       fd_odm = Some ''referenceMany(targetDocument:Project,mappedBy:Employee)''\<rparr>]"

definition Project_decl :: "field_decl list" where
  "Project_decl =
     [id_decl,
      \<lparr>fd_name = ''Title'', fd_bson = Some ''Title'', fd_odm = None\<rparr>,
      \<lparr>fd_name = ''Employee'', fd_bson = Some ''Employee'',
       fd_odm = Some ''referenceOne(targetDocument:Employee)''\<rparr>,
      \<lparr>fd_name = ''Client'', fd_bson = None,
       fd_odm = Some ''referenceOne(targetDocument:Client,mappedBy:Projects)''\<rparr>]"

definition Author_decl :: "field_decl list" where
  "Author_decl =
     [id_decl,
      \<lparr>fd_name = ''Name'', fd_bson = Some ''Name'', fd_odm = None\<rparr>,
      \<lparr>fd_name = ''Articles'', fd_bson = None,
       fd_odm = Some ''referenceMany(targetDocument:Article,mappedBy:Author)''\<rparr>]"

definition Tag_decl :: "field_decl list" where
  "Tag_decl =
     [id_decl,
      \<lparr>fd_name = ''Name'', fd_bson = Some ''Name'', fd_odm = None\<rparr>,
      \<lparr>fd_name = ''Articles'', fd_bson = None,
       fd_odm = Some ''referenceMany(targetDocument:Article,mappedBy:Tags)''\<rparr>]"

text \<open>The type \<open>Article\<close> (lines 176 to 185); the annotation of its field \<open>Tags\<close> is a
  parameter, the one of the source being \<open>Tags_annotation\<close>.\<close>

definition Article_decl :: "string \<Rightarrow> field_decl list" where
  "Article_decl tags_annotation =
     [id_decl,
      \<lparr>fd_name = ''Title'', fd_bson = Some ''Title'', fd_odm = None\<rparr>,
      \<lparr>fd_name = ''Author'', fd_bson = None,
       fd_odm = Some ''referenceOne(targetDocument:Author)''\<rparr>,
      \<lparr>fd_name = ''Tags'', fd_bson = None, fd_odm = Some tags_annotation\<rparr>]"


text \<open>\<open>TestMappedBy\<close>, lines 123 to 142.\<close>

definition scenario3 :: "odm_error + session" where
  "scenario3 =
     run [Register id ''Employee'' Employee_decl, Register id ''Project'' Project_decl,
          Register id ''Client'' Client_decl,
          NewWithId \<lparr>etype = ''Employee'', eid = 0, scalars = [(''Name'', Str ''John'')], links = []\<rparr>,
          New \<lparr>etype = ''Project'', eid = 0, scalars = [(''Title'', Str ''First project'')],
               links = [(''Employee'', [0])]\<rparr>,
          New \<lparr>etype = ''Project'', eid = 0, scalars = [(''Title'', Str ''Second project'')],
               links = [(''Employee'', [0])]\<rparr>,
          New \<lparr>etype = ''Client'', eid = 0, scalars = [(''Name'', Str ''Example'')],
               links = [(''Projects'', [1, 2])]\<rparr>,
          New \<lparr>etype = ''Client'', eid = 0, scalars = [(''Name'', Str ''Acme'')], links = []\<rparr>,
          Persist 0, Persist 1, Persist 2, Persist 3, Persist 4, FlushStep]
       (NewDocumentManager [])"

text \<open>\<open>Example\<close>, lines 241 to 266: the author at address 0, the tag \<open>programming\<close> at 1,
  the tag \<open>go\<close> at 2, the two articles at 3 and 4; the tags are not persisted by the test.\<close>

definition scenario4 :: "string \<Rightarrow> odm_error + session" where
  "scenario4 tags_annotation =
     (case RegisterMany id [(''Article'', Article_decl tags_annotation), (''Author'', Author_decl),
                         (''Tag'', Tag_decl)] (NewDocumentManager []) of
        (Some e, s) \<Rightarrow> Inl e
      | (None, s) \<Rightarrow>
          run [New \<lparr>etype = ''Author'', eid = 0, scalars = [(''Name'', Str ''John Doe'')], links = []\<rparr>,
               New \<lparr>etype = ''Tag'', eid = 0, scalars = [(''Name'', Str ''programming'')], links = []\<rparr>,
               New \<lparr>etype = ''Tag'', eid = 0, scalars = [(''Name'', Str ''go'')], links = []\<rparr>,
               New \<lparr>etype = ''Article'', eid = 0, scalars = [(''Title'', Str ''Go tiger!'')],
                    links = [(''Author'', [0]), (''Tags'', [2, 1])]\<rparr>,
               New \<lparr>etype = ''Article'', eid = 0, scalars = [(''Title'', Str ''MongoDB'')],
                    links = [(''Author'', [0]), (''Tags'', [1])]\<rparr>,
               Persist 0, Persist 3, Persist 4, FlushStep] s)"

text \<open>\<open>Example\<close>, lines 322 to 334: the articles titled \<open>MongoDB\<close> are fetched, the first
  is removed, and the session is flushed.\<close>

definition scenario5 :: "string \<Rightarrow> odm_error + session" where
  "scenario5 tags_annotation =
     (case scenario4 tags_annotation of
        Inl e \<Rightarrow> Inl e
      | Inr s \<Rightarrow>
          (case FindBy ''Article'' [(''Title'', Str ''MongoDB'')] s of
             Some (Inr (r # rs), s') \<Rightarrow> run [Remove r, FlushStep] s'
           | _ \<Rightarrow> Inl NotFound))"

text \<open>The annotation of \<open>Article.Tags\<close> in the source (line 184).\<close>

definition Tags_annotation :: string where
  "Tags_annotation = ''referenceMany(targetDocument:Tag,cascade:Persist)''"




text \<open>\<open>Example\<close>, lines 338 and 339: the lookup of the tag \<open>programming\<close> after the
  removal.\<close>

definition Example_tag_lookup :: "string \<Rightarrow> (odm_error + ref) option" where
  "Example_tag_lookup tags_annotation =
     (case scenario5 tags_annotation of
        Inl e \<Rightarrow> None
      | Inr s \<Rightarrow> map_option fst (FindOne ''Tag'' [(''Name'', Str ''programming'')] s))"

text \<open>The fields of a declared type that are stored as scalars.\<close>

definition scalar_decl :: "(string \<Rightarrow> string) \<Rightarrow> field_decl \<Rightarrow> bool" where
  "scalar_decl ulower fd = (fd_odm fd = None \<and> storage_key ulower fd \<noteq> Some ''_id'')"

section \<open>Properties of the row mapper\<close>

subsection \<open>BuildFromString\<close>

lemma Split_not_Nil: "Split s sep \<noteq> []"
  by (induction s) (auto split: list.splits)

lemma Join_Split: "Join (Split s sep) sep = s"
proof (induction s)
  case Nil
  then show ?case by simp
next
  case (Cons c cs)
  show ?case
  proof (cases "c = sep")
    case True
    with Cons Split_not_Nil [of cs sep] show ?thesis
      by (cases "Split cs sep") auto
  next
    case False
    with Cons Split_not_Nil [of cs sep] show ?thesis
      by (cases "Split cs sep"; cases "tl (Split cs sep)") auto
  qed
qed

lemma Split_no_sep: "p \<in> set (Split s sep) \<Longrightarrow> sep \<notin> set p"
  by (induction s arbitrary: p) (auto split: if_splits list.splits)

lemma build_item_flag:
  "PersistZeroValue (build_item u t item) =
     (PersistZeroValue t \<or> TrimSpace (ToLower u (TrimSpace item)) = ''persistzerovalue'')"
  by (simp add: build_item_def Let_def)

lemma build_item_column:
  "ColumnName (build_item u t item) =
     (if HasPrefix (TrimSpace item) ''column:''
      then TrimSpace (drop (length ''column:'') (TrimSpace item)) else ColumnName t)"
  by (simp add: build_item_def Let_def TrimPrefix_def del: list.size)

lemma foldl_build_flag:
  "PersistZeroValue (foldl (build_item u) t items) =
     (PersistZeroValue t \<or>
      (\<exists>item \<in> set items. TrimSpace (ToLower u (TrimSpace item)) = ''persistzerovalue''))"
  by (induction items arbitrary: t) (auto simp: build_item_flag)

lemma foldl_build_column:
  "ColumnName (foldl (build_item u) t items) =
     (case rev (filter (\<lambda>i. HasPrefix (TrimSpace i) ''column:'') items) of
        [] \<Rightarrow> ColumnName t
      | i # _ \<Rightarrow> TrimSpace (drop (length ''column:'') (TrimSpace i)))"
  by (induction items rule: rev_induct) (auto simp: build_item_column simp del: list.size)

text \<open>
  C10. \<open>BuildFromString\<close> is a total function into \<open>SQLStructTag\<close>, with no error in its
  result type. Its items are the pieces of the input between the commas (joining them
  with commas gives the input back, and no item holds a comma). \<open>PersistZeroValue\<close> is
  set exactly when some item, trimmed and lowered, is \<open>persistzerovalue\<close>. \<open>ColumnName\<close>
  is the trimmed remainder of the last item that, once trimmed, starts with \<open>column:\<close>
  as written, and is empty when there is no such item.
\<close>

theorem BuildFromString_items:
  "Join (Split data CHR '','') CHR '','' = data \<and>
   (\<forall>item \<in> set (Split data CHR '',''). CHR '','' \<notin> set item) \<and>
   PersistZeroValue (BuildFromString ulower data) =
     (\<exists>item \<in> set (Split data CHR '','').
        TrimSpace (ToLower ulower (TrimSpace item)) = ''persistzerovalue'') \<and>
   ColumnName (BuildFromString ulower data) =
     (case rev (filter (\<lambda>i. HasPrefix (TrimSpace i) ''column:'') (Split data CHR '','')) of
        [] \<Rightarrow> []
      | i # _ \<Rightarrow> TrimSpace (drop (length ''column:'') (TrimSpace i)))"
proof -
  have "PersistZeroValue (BuildFromString ulower data) =
     (\<exists>item \<in> set (Split data CHR '','').
        TrimSpace (ToLower ulower (TrimSpace item)) = ''persistzerovalue'')"
    unfolding BuildFromString_def by (simp add: foldl_build_flag)
  moreover have "ColumnName (BuildFromString ulower data) =
     (case rev (filter (\<lambda>i. HasPrefix (TrimSpace i) ''column:'') (Split data CHR '','')) of
        [] \<Rightarrow> []
      | i # _ \<Rightarrow> TrimSpace (drop (length ''column:'') (TrimSpace i)))"
    unfolding BuildFromString_def
    by (simp add: foldl_build_column split: list.splits del: list.size)
  ultimately show ?thesis
    using Join_Split [of data "CHR '',''"] Split_no_sep [of _ data "CHR '',''"] by blast
qed

theorem BuildFromString_items_witness:
  "(\<exists>item \<in> set (Split '' column: bar , PersistZeroValue'' CHR '','').
      TrimSpace (ToLower id (TrimSpace item)) = ''persistzerovalue'') \<and>
   PersistZeroValue (BuildFromString id '' column: bar , PersistZeroValue'') \<and>
   ColumnName (BuildFromString id '' column: bar , PersistZeroValue'') = ''bar''"
proof -
  have a: "\<exists>item \<in> set (Split '' column: bar , PersistZeroValue'' CHR '','').
      TrimSpace (ToLower id (TrimSpace item)) = ''persistzerovalue''"
  proof (rule bexI [where x = "'' PersistZeroValue''"])
    show "TrimSpace (ToLower id (TrimSpace '' PersistZeroValue'')) = ''persistzerovalue''"
      by code_simp
    show "'' PersistZeroValue'' \<in> set (Split '' column: bar , PersistZeroValue'' CHR '','')"
      by code_simp
  qed
  have b: "(case rev (filter (\<lambda>i. HasPrefix (TrimSpace i) ''column:'')
                (Split '' column: bar , PersistZeroValue'' CHR '','')) of
        [] \<Rightarrow> []
      | i # _ \<Rightarrow> TrimSpace (drop (length ''column:'') (TrimSpace i))) = ''bar''"
    by code_simp
  note t = BuildFromString_items [of " '' column: bar , PersistZeroValue''" id]
  from t a have p: "PersistZeroValue (BuildFromString id '' column: bar , PersistZeroValue'')"
    by blast
  from t have "ColumnName (BuildFromString id '' column: bar , PersistZeroValue'') =
     (case rev (filter (\<lambda>i. HasPrefix (TrimSpace i) ''column:'')
                (Split '' column: bar , PersistZeroValue'' CHR '','')) of
        [] \<Rightarrow> []
      | i # _ \<Rightarrow> TrimSpace (drop (length ''column:'') (TrimSpace i)))"
    by blast
  from this b
  have c: "ColumnName (BuildFromString id '' column: bar , PersistZeroValue'') = ''bar''"
    by (rule trans)
  from a p c show ?thesis by blast
qed

subsection \<open>CreateTagMapperFunc\<close>

lemma find_append_cases:
  "find P (xs @ ys) = (case find P xs of None \<Rightarrow> find P ys | Some x \<Rightarrow> Some x)"
  by (induction xs) auto

lemma tag_map_loop_char:
  "tag_map_loop u tn fs m s =
     (case find (\<lambda>f. tag_key u tn f = s) (rev fs) of
        Some f \<Rightarrow> Some (Name f)
      | None \<Rightarrow> m s)"
proof (induction fs arbitrary: m)
  case Nil
  then show ?case by simp
next
  case (Cons f fs)
  show ?case
    by (simp add: Cons.IH Let_def tag_key_def find_append_cases split: option.splits)
qed

lemma Indirect_struct:
  "(Indirect v = GoStruct fs) = (v = GoStruct fs \<or> v = GoPtr (Some (GoStruct fs)))"
  by (cases v rule: Indirect.cases) auto

text \<open>
  C9, as stated, fails when two fields are entered under one key: the loop overwrites
  the entry, so the later field wins. In the struct below the field \<open>A\<close> has no tag and
  the field \<open>B\<close> has the tag \<open>sql:"column:A"\<close>; the transform maps \<open>A\<close>, the name of a
  tagless field, to \<open>B\<close> and not to itself.
\<close>

theorem CreateTagMapperFunc_collision:
  "(case (CreateTagMapperFunc id
       (GoStruct [\<lparr>Name = ''A'', Tag = [], Settable = True, Embeds = None\<rparr>,
                  \<lparr>Name = ''B'', Tag = [(''sql'', ''column:A'')], Settable = True, Embeds = None\<rparr>]) []
       :: unit map_error + (string \<Rightarrow> string)) of
      Inl e \<Rightarrow> False
    | Inr g \<Rightarrow> g ''A'' = ''B'' \<and> g ''A'' \<noteq> ''A'')"
  by code_simp

text \<open>
  C9, amended. \<open>CreateTagMapperFunc\<close> returns the error exactly when its argument is
  neither a struct nor a pointer to one (a nil pointer points to no struct). Otherwise
  the transform maps a string to the declared name of the last field, in declaration
  order, whose key is that string, and is the identity on a string that is no field's
  key. The key of a field is the column of its tag when it has one, its declared name
  otherwise.
\<close>

theorem CreateTagMapperFunc_last_key_wins:
  "(case (CreateTagMapperFunc ulower v tagname :: 'e map_error + (string \<Rightarrow> string)) of
      Inl e \<Rightarrow> e = StructExpected v \<and> (\<forall>fs. v \<noteq> GoStruct fs \<and> v \<noteq> GoPtr (Some (GoStruct fs)))
    | Inr g \<Rightarrow>
        (\<exists>fs. (v = GoStruct fs \<or> v = GoPtr (Some (GoStruct fs))) \<and>
           (\<forall>s. g s =
              (case find (\<lambda>f. tag_key ulower (default_tagname tagname) f = s) (rev fs) of
                 Some f \<Rightarrow> Name f
               | None \<Rightarrow> s))))"
proof (cases "Indirect v")
  case (GoStruct fs)
  then have v: "v = GoStruct fs \<or> v = GoPtr (Some (GoStruct fs))"
    by (simp add: Indirect_struct)
  let ?g = "\<lambda>s. case tag_map_loop ulower (default_tagname tagname) fs Map.empty s of
                      Some r \<Rightarrow> r | None \<Rightarrow> s"
  have c: "CreateTagMapperFunc ulower v tagname = Inr ?g"
    by (simp add: CreateTagMapperFunc_def GoStruct)
  have g: "\<forall>s. ?g s =
              (case find (\<lambda>f. tag_key ulower (default_tagname tagname) f = s) (rev fs) of
                 Some f \<Rightarrow> Name f
               | None \<Rightarrow> s)"
    by (simp add: tag_map_loop_char split: option.splits)
  show ?thesis
    unfolding c sum.case using v g by blast
next
  case (GoPtr p)
  then have "\<forall>fs. v \<noteq> GoStruct fs \<and> v \<noteq> GoPtr (Some (GoStruct fs))" by auto
  with GoPtr show ?thesis by (simp add: CreateTagMapperFunc_def)
next
  case GoNil
  then have "\<forall>fs. v \<noteq> GoStruct fs \<and> v \<noteq> GoPtr (Some (GoStruct fs))" by auto
  with GoNil show ?thesis by (simp add: CreateTagMapperFunc_def)
next
  case GoOther
  then have "\<forall>fs. v \<noteq> GoStruct fs \<and> v \<noteq> GoPtr (Some (GoStruct fs))" by auto
  with GoOther show ?thesis by (simp add: CreateTagMapperFunc_def)
qed

theorem CreateTagMapperFunc_last_key_wins_witness:
  "\<exists>g. CreateTagMapperFunc id
          (GoPtr (Some (GoStruct [\<lparr>Name = ''Bar'', Tag = [(''sql'', ''column:bar'')], Settable = True, Embeds = None\<rparr>,
                                  \<lparr>Name = ''Baz'', Tag = [], Settable = True, Embeds = None\<rparr>]))) []
        = (Inr g :: unit map_error + (string \<Rightarrow> string)) \<and>
       g ''bar'' = ''Bar'' \<and> g ''Baz'' = ''Baz'' \<and> g ''other'' = ''other''"
proof -
  let ?fs = "[\<lparr>Name = ''Bar'', Tag = [(''sql'', ''column:bar'')], Settable = True, Embeds = None\<rparr>,
              \<lparr>Name = ''Baz'', Tag = [], Settable = True, Embeds = None\<rparr>]"
  let ?v = "GoPtr (Some (GoStruct ?fs))"
  obtain g where g: "CreateTagMapperFunc id ?v [] = (Inr g :: unit map_error + (string \<Rightarrow> string))"
    by (simp add: CreateTagMapperFunc_def)
  from CreateTagMapperFunc_last_key_wins [where ulower = id and v = "?v" and tagname = "[]" and 'e = unit] g
  obtain fs where fs: "?v = GoStruct fs \<or> ?v = GoPtr (Some (GoStruct fs))"
    and gs: "\<forall>s. g s = (case find (\<lambda>f. tag_key id (default_tagname []) f = s) (rev fs) of
                 Some f \<Rightarrow> Name f | None \<Rightarrow> s)"
    by auto
  from fs have fs_eq: "fs = ?fs" by simp
  have k1: "(case find (\<lambda>f. tag_key id (default_tagname []) f = ''bar'') (rev ?fs) of
                 Some f \<Rightarrow> Name f | None \<Rightarrow> ''bar'') = ''Bar''"
    by code_simp
  have k2: "(case find (\<lambda>f. tag_key id (default_tagname []) f = ''Baz'') (rev ?fs) of
                 Some f \<Rightarrow> Name f | None \<Rightarrow> ''Baz'') = ''Baz''"
    by code_simp
  have k3: "(case find (\<lambda>f. tag_key id (default_tagname []) f = ''other'') (rev ?fs) of
                 Some f \<Rightarrow> Name f | None \<Rightarrow> ''other'') = ''other''"
    by code_simp
  from gs k1 k2 k3 have "g ''bar'' = ''Bar'' \<and> g ''Baz'' = ''Baz'' \<and> g ''other'' = ''other''"
    unfolding fs_eq by metis
  with g show ?thesis by blast
qed

subsection \<open>MapRowToStruct\<close>

lemma scan_dests_char:
  "scan_dests ign tr fs cols acc =
     (case find (stops ign tr fs) cols of
        Some c \<Rightarrow> Inl (column_error tr fs c)
      | None \<Rightarrow> Inr (acc @ map (column_dest tr fs) cols))"
proof (induction cols arbitrary: acc)
  case Nil
  then show ?case by simp
next
  case (Cons c cols)
  show ?case
  proof (cases "FieldByName fs (tr c)")
    case (Inl p)
    then show ?thesis
      by (cases p) (simp add: stops_def panics_def column_error_def)
  next
    case (Inr o1)
    show ?thesis
    proof (cases o1)
      case None
      with Inr Cons.IH [of "acc @ [Discard]"] show ?thesis
        by (cases ign)
           (simp_all add: stops_def panics_def unsettable_def missing_def
              column_error_def column_dest_def split: option.split)
    next
      case (Some f)
      with Inr Cons.IH [of "acc @ [FieldAddr (index f)]"] show ?thesis
        by (cases "can_set f")
           (simp_all add: stops_def panics_def unsettable_def missing_def
              column_error_def column_dest_def split: option.split)
    qed
  qed
qed

lemma find_stops_ex:
  "list_ex P cols \<Longrightarrow> \<exists>c. find P cols = Some c"
  by (induction cols) auto

lemma find_stops_none:
  "\<not> list_ex P cols \<Longrightarrow> find P cols = None"
  by (induction cols) auto

text \<open>
  C8, as stated, fails when a column matches a field that cannot be set: the loop returns
  the error of the \<open>CanSet\<close> check, also when \<open>ignoreMissingFields\<close> is true. Below the
  struct has the one unexported field \<open>name\<close>; the column \<open>zzz\<close> matches no field, yet
  \<open>Scan\<close> is not called and nothing is scanned into a discard destination.
\<close>

theorem MapRowToStruct_unexported_no_scan:
  "list_ex (missing noop [\<lparr>Name = ''name'', Tag = [], Settable = False, Embeds = None\<rparr>]) [''name'', ''zzz''] \<and>
   MapRowToStruct [''name'', ''zzz''] (\<lambda>ds. None :: unit option)
     (GoPtr (Some (GoStruct [\<lparr>Name = ''name'', Tag = [], Settable = False, Embeds = None\<rparr>]))) True [] =
   (Some (UnexportedField ''name''), [])"
  by code_simp

text \<open>
  C8, amended. The column names are transformed by the first transform (the identity when
  none is given) and looked up as \<open>reflect\<close> does, fields promoted from embedded structs
  included. For every list of columns, scanner and non-nil pointer to a struct, a column
  stops the loop when its name matches no field and \<open>ignoreMissingFields\<close> is false, when
  it matches a field that cannot be set, and when it matches a field behind a nil embedded
  pointer (\<open>reflect\<close> panics); with such a column \<open>Scan\<close> is not called and the result is
  the error, or the panic, of the first one; with none \<open>Scan\<close> is called once, with a
  discard destination for each column that matches no field and the address of the
  matching field for each other column, in the order of the columns, and its error is the
  result. So a column without field gives an error without \<open>ignoreMissingFields\<close>, a
  column of a field that cannot be set gives an error whatever \<open>ignoreMissingFields\<close> is,
  and with \<open>ignoreMissingFields\<close>, no column of an unsettable field and none behind a nil
  embedded pointer, \<open>Scan\<close> gets the destinations. For a nil pointer, and for a pointer
  to anything but a struct, \<open>Scan\<close> is called with no destination when there is no
  column, and \<open>reflect\<close> panics at the first column otherwise. A destination that is no
  pointer gives an error without a call of \<open>Scan\<close>.
\<close>

theorem MapRowToStruct_destinations:
  fixes Scan :: "dest list \<Rightarrow> 'e option"
  shows
  "MapRowToStruct columns Scan (GoPtr (Some (GoStruct fs))) ign transforms =
     (case find (stops ign (first_transform transforms) fs) columns of
        Some c \<Rightarrow> (Some (column_error (first_transform transforms) fs c), [])
      | None \<Rightarrow>
          (map_option ScanFailed (Scan (map (column_dest (first_transform transforms) fs) columns)),
           [map (column_dest (first_transform transforms) fs) columns])) \<and>
   (list_ex (missing (first_transform transforms) fs) columns \<longrightarrow>
      (\<exists>e. MapRowToStruct columns Scan (GoPtr (Some (GoStruct fs))) False transforms = (Some e, []))) \<and>
   (list_ex (unsettable (first_transform transforms) fs) columns \<longrightarrow>
      (\<exists>e. MapRowToStruct columns Scan (GoPtr (Some (GoStruct fs))) ign transforms = (Some e, []))) \<and>
   (list_ex (panics (first_transform transforms) fs) columns \<longrightarrow>
      (\<exists>e. MapRowToStruct columns Scan (GoPtr (Some (GoStruct fs))) ign transforms = (Some e, []))) \<and>
   (\<not> list_ex (unsettable (first_transform transforms) fs) columns \<and>
    \<not> list_ex (panics (first_transform transforms) fs) columns \<longrightarrow>
      MapRowToStruct columns Scan (GoPtr (Some (GoStruct fs))) True transforms =
        (map_option ScanFailed (Scan (map (column_dest (first_transform transforms) fs) columns)),
         [map (column_dest (first_transform transforms) fs) columns])) \<and>
   ((\<forall>fs'. p \<noteq> Some (GoStruct fs')) \<longrightarrow>
      MapRowToStruct columns Scan (GoPtr p) ign transforms =
        (if columns = [] then (map_option ScanFailed (Scan []), [[]]) else (Some ReflectPanic, []))) \<and>
   ((\<forall>p. v \<noteq> GoPtr p) \<longrightarrow>
      MapRowToStruct columns Scan v ign transforms = (Some (PointerExpected v), []))"
proof -
  let ?t = "first_transform transforms"
  let ?ds = "map (column_dest ?t fs) columns"
  have char: "\<And>ign. MapRowToStruct columns Scan (GoPtr (Some (GoStruct fs))) ign transforms =
     (case find (stops ign ?t fs) columns of
        Some c \<Rightarrow> (Some (column_error ?t fs c), [])
      | None \<Rightarrow> (map_option ScanFailed (Scan ?ds), [?ds]))"
    by (simp add: MapRowToStruct_def first_transform_def scan_dests_char Let_def split: option.splits)
  have stop: "\<And>ign. list_ex (stops ign ?t fs) columns \<Longrightarrow>
      \<exists>e. MapRowToStruct columns Scan (GoPtr (Some (GoStruct fs))) ign transforms = (Some e, [])"
  proof -
    fix ign assume "list_ex (stops ign ?t fs) columns"
    then obtain c where "find (stops ign ?t fs) columns = Some c"
      using find_stops_ex by blast
    then show "\<exists>e. MapRowToStruct columns Scan (GoPtr (Some (GoStruct fs))) ign transforms = (Some e, [])"
      by (simp add: char)
  qed
  have c2: "list_ex (missing ?t fs) columns \<longrightarrow>
      (\<exists>e. MapRowToStruct columns Scan (GoPtr (Some (GoStruct fs))) False transforms = (Some e, []))"
  proof
    assume "list_ex (missing ?t fs) columns"
    then have "list_ex (stops False ?t fs) columns"
      by (auto simp: list_ex_iff stops_def)
    then show "\<exists>e. MapRowToStruct columns Scan (GoPtr (Some (GoStruct fs))) False transforms = (Some e, [])"
      by (rule stop)
  qed
  have c3: "list_ex (unsettable ?t fs) columns \<longrightarrow>
      (\<exists>e. MapRowToStruct columns Scan (GoPtr (Some (GoStruct fs))) ign transforms = (Some e, []))"
  proof
    assume "list_ex (unsettable ?t fs) columns"
    then have "list_ex (stops ign ?t fs) columns"
      by (auto simp: list_ex_iff stops_def)
    then show "\<exists>e. MapRowToStruct columns Scan (GoPtr (Some (GoStruct fs))) ign transforms = (Some e, [])"
      by (rule stop)
  qed
  have c4: "list_ex (panics ?t fs) columns \<longrightarrow>
      (\<exists>e. MapRowToStruct columns Scan (GoPtr (Some (GoStruct fs))) ign transforms = (Some e, []))"
  proof
    assume "list_ex (panics ?t fs) columns"
    then have "list_ex (stops ign ?t fs) columns"
      by (auto simp: list_ex_iff stops_def)
    then show "\<exists>e. MapRowToStruct columns Scan (GoPtr (Some (GoStruct fs))) ign transforms = (Some e, [])"
      by (rule stop)
  qed
  have c5: "\<not> list_ex (unsettable ?t fs) columns \<and> \<not> list_ex (panics ?t fs) columns \<longrightarrow>
      MapRowToStruct columns Scan (GoPtr (Some (GoStruct fs))) True transforms =
        (map_option ScanFailed (Scan ?ds), [?ds])"
  proof
    assume "\<not> list_ex (unsettable ?t fs) columns \<and> \<not> list_ex (panics ?t fs) columns"
    then have "\<not> list_ex (stops True ?t fs) columns"
      by (auto simp: list_ex_iff stops_def)
    then have "find (stops True ?t fs) columns = None" by (rule find_stops_none)
    then show "MapRowToStruct columns Scan (GoPtr (Some (GoStruct fs))) True transforms =
        (map_option ScanFailed (Scan ?ds), [?ds])"
      by (simp add: char)
  qed
  have c6: "(\<forall>fs'. p \<noteq> Some (GoStruct fs')) \<longrightarrow>
      MapRowToStruct columns Scan (GoPtr p) ign transforms =
        (if columns = [] then (map_option ScanFailed (Scan []), [[]]) else (Some ReflectPanic, []))"
  proof
    assume a: "\<forall>fs'. p \<noteq> Some (GoStruct fs')"
    show "MapRowToStruct columns Scan (GoPtr p) ign transforms =
        (if columns = [] then (map_option ScanFailed (Scan []), [[]]) else (Some ReflectPanic, []))"
    proof (cases p)
      case None
      then show ?thesis by (simp add: MapRowToStruct_def)
    next
      case (Some u)
      with a have "\<forall>fs'. u \<noteq> GoStruct fs'" by simp
      with Some show ?thesis by (cases u) (simp_all add: MapRowToStruct_def)
    qed
  qed
  have c7: "(\<forall>p. v \<noteq> GoPtr p) \<longrightarrow>
      MapRowToStruct columns Scan v ign transforms = (Some (PointerExpected v), [])"
  proof
    assume "\<forall>p. v \<noteq> GoPtr p"
    then show "MapRowToStruct columns Scan v ign transforms = (Some (PointerExpected v), [])"
      by (cases v) (simp_all add: MapRowToStruct_def)
  qed
  from char [of ign] c2 c3 c4 c5 c6 c7 show ?thesis by blast
qed


theorem MapRowToStruct_destinations_witness:
  "MapRowToStruct [''X'', ''zzz'', ''B''] (\<lambda>ds. None :: unit option)
      (GoPtr (Some (GoStruct (Outer False)))) True [] =
     (None, [[FieldAddr [0, 0], Discard, FieldAddr [1]]]) \<and>
   MapRowToStruct [''X'', ''zzz'', ''B''] (\<lambda>ds. None :: unit option)
      (GoPtr (Some (GoStruct (Outer False)))) False [] =
     (Some (NoFieldFound ''zzz''), []) \<and>
   MapRowToStruct [''B'', ''y''] (\<lambda>ds. None :: unit option)
      (GoPtr (Some (GoStruct (Outer False)))) True [] =
     (Some (UnexportedField ''y''), []) \<and>
   MapRowToStruct [''B'', ''X''] (\<lambda>ds. None :: unit option)
      (GoPtr (Some (GoStruct (Outer True)))) True [] =
     (Some ReflectPanic, []) \<and>
   MapRowToStruct [''B''] (\<lambda>ds. None :: unit option) (GoPtr None) True [] =
     (Some ReflectPanic, []) \<and>
   MapRowToStruct [''B''] (\<lambda>ds. None :: unit option) (GoStruct (Outer False)) True [] =
     (Some (PointerExpected (GoStruct (Outer False))), [])"
proof -
  let ?S = "\<lambda>ds :: dest list. None :: unit option"
  let ?cols = "[''X'', ''zzz'', ''B'']"
  note inst = MapRowToStruct_destinations [where transforms = "[]" and Scan = "?S"]
  have f1: "find (stops True (first_transform []) (Outer False)) ?cols = None" by code_simp
  have d1: "map (column_dest (first_transform []) (Outer False)) ?cols =
              [FieldAddr [0, 0], Discard, FieldAddr [1]]" by code_simp
  have f2: "find (stops False (first_transform []) (Outer False)) ?cols = Some ''zzz''" by code_simp
  have e2: "(column_error (first_transform []) (Outer False) ''zzz'' :: unit map_error) = NoFieldFound ''zzz''"
    by code_simp
  have f3: "find (stops True (first_transform []) (Outer False)) [''B'', ''y''] = Some ''y''" by code_simp
  have e3: "(column_error (first_transform []) (Outer False) ''y'' :: unit map_error) = UnexportedField ''y''"
    by code_simp
  have f4: "find (stops True (first_transform []) (Outer True)) [''B'', ''X''] = Some ''X''" by code_simp
  have e4: "(column_error (first_transform []) (Outer True) ''X'' :: unit map_error) = ReflectPanic"
    by code_simp
  have c1: "MapRowToStruct ?cols ?S (GoPtr (Some (GoStruct (Outer False)))) True [] =
     (None, [[FieldAddr [0, 0], Discard, FieldAddr [1]]])"
    using inst [where columns = "?cols" and fs = "Outer False" and ign = True, THEN conjunct1]
    by (simp only: f1 d1 option.case option.map)
  have c2: "MapRowToStruct ?cols ?S (GoPtr (Some (GoStruct (Outer False)))) False [] =
     (Some (NoFieldFound ''zzz''), [])"
    using inst [where columns = "?cols" and fs = "Outer False" and ign = False, THEN conjunct1]
    by (simp only: f2 e2 option.case option.map)
  have c3: "MapRowToStruct [''B'', ''y''] ?S (GoPtr (Some (GoStruct (Outer False)))) True [] =
     (Some (UnexportedField ''y''), [])"
    using inst [where columns = "[''B'', ''y'']" and fs = "Outer False" and ign = True, THEN conjunct1]
    by (simp only: f3 e3 option.case option.map)
  have c4: "MapRowToStruct [''B'', ''X''] ?S (GoPtr (Some (GoStruct (Outer True)))) True [] =
     (Some ReflectPanic, [])"
    using inst [where columns = "[''B'', ''X'']" and fs = "Outer True" and ign = True, THEN conjunct1]
    by (simp only: f4 e4 option.case option.map)
  have c5: "MapRowToStruct [''B''] ?S (GoPtr None) True [] = (Some ReflectPanic, [])"
    using inst [where columns = "[''B'']" and p = None and ign = True] by simp
  have np: "\<forall>p. GoStruct (Outer False) \<noteq> GoPtr p" by simp
  have c6: "MapRowToStruct [''B''] ?S (GoStruct (Outer False)) True [] =
     (Some (PointerExpected (GoStruct (Outer False))), [])"
    using inst [where columns = "[''B'']" and v = "GoStruct (Outer False)" and ign = True] np by blast
  from c1 c2 c3 c4 c5 c6 show ?thesis by blast
qed

section \<open>Properties of the document manager\<close>

subsection \<open>Tag parser\<close>






subsection \<open>Cascade on remove\<close>


end
